theory Spec2Isabelle
  imports Main "HOL-Library.Sublist"
begin

section \<open>Values, references and errors of the host language\<close>

text \<open>
  Objects (class constructors, instances, prototypes, method handlers) are identified by a
  reference; two references are the same object exactly when they are equal.
\<close>

type_synonym ref = nat

text \<open>Modelled from the spec: the type \<^verbatim>\<open>MetaKey\<close> of \<^verbatim>\<open>discovery.interfaces\<close>, which is
  not among the sources; metadata is attached at a named key.\<close>

type_synonym MetaKey = string

text \<open>
  Metadata is an arbitrary value of the host language. The service only ever looks at its
  truthiness (\<^verbatim>\<open>Array.prototype.filter\<close> coerces the callback's result, and
  \<^verbatim>\<open>!!x.meta\<close> does so explicitly). Numbers are modelled as integers.
\<close>

datatype jsval = Undefined | Null | Bool bool | Num int | Str string | Obj ref

fun truthy :: "jsval \<Rightarrow> bool" where
  "truthy Undefined = False"
| "truthy Null = False"
| "truthy (Bool b) = b"
| "truthy (Num n) = (n \<noteq> 0)"
| "truthy (Str s) = (s \<noteq> [])"
| "truthy (Obj r) = True"

text \<open>The only exception the modelled code paths can meet.\<close>

datatype error = TypeError

text \<open>Sequencing of computations that may throw: the first exception propagates.\<close>

definition bindE :: "error + 'a \<Rightarrow> ('a \<Rightarrow> error + 'b) \<Rightarrow> error + 'b" where
  "bindE m f = (case m of Inl e \<Rightarrow> Inl e | Inr x \<Rightarrow> f x)"

text \<open>Modelled from the spec: the type \<^verbatim>\<open>Filter<T>\<close> of \<^verbatim>\<open>discovery.interfaces\<close>, a
  predicate on items. A filter is called by \<^verbatim>\<open>Array.prototype.filter\<close>, which keeps an
  element when the returned value is truthy; the filter \<^verbatim>\<open>withMetaAtKey\<close> of the source
  returns the metadata value itself, and may throw.\<close>

type_synonym 'a Filter = "'a \<Rightarrow> error + jsval"

text \<open>A filter given by a total boolean predicate, such as \<^verbatim>\<open>x => true\<close>.\<close>

definition pure_filter :: "('a \<Rightarrow> bool) \<Rightarrow> 'a Filter" where
  "pure_filter p = (\<lambda>x. Inr (Bool (p x)))"

section \<open>Array operations\<close>

text \<open>\<^verbatim>\<open>xs.filter(cb)\<close>: calls \<open>cb\<close> on the elements in order and keeps those with a
  truthy result; an exception thrown by \<open>cb\<close> ends the call.\<close>

fun array_filter :: "'a Filter \<Rightarrow> 'a list \<Rightarrow> error + 'a list" where
  "array_filter cb [] = Inr []"
| "array_filter cb (x # xs) =
     bindE (cb x) (\<lambda>v. bindE (array_filter cb xs) (\<lambda>ys. Inr (if truthy v then x # ys else ys)))"

text \<open>\<^verbatim>\<open>xs.map(cb)\<close> with a callback that may throw.\<close>

fun array_map :: "('a \<Rightarrow> error + 'b) \<Rightarrow> 'a list \<Rightarrow> error + 'b list" where
  "array_map cb [] = Inr []"
| "array_map cb (x # xs) =
     bindE (cb x) (\<lambda>y. bindE (array_map cb xs) (\<lambda>ys. Inr (y # ys)))"

text \<open>lodash \<^verbatim>\<open>flatMap(xs, cb)\<close>: the concatenation of the arrays \<open>cb\<close> returns, in order.
  \<open>flatMap\<close> is the case of a callback that cannot throw, \<open>flatMapE\<close> the general one.\<close>

definition flatMap :: "('a \<Rightarrow> 'b list) \<Rightarrow> 'a list \<Rightarrow> 'b list" where
  "flatMap cb xs = concat (map cb xs)"

fun flatMapE :: "('a \<Rightarrow> error + 'b list) \<Rightarrow> 'a list \<Rightarrow> error + 'b list" where
  "flatMapE cb [] = Inr []"
| "flatMapE cb (x # xs) =
     bindE (cb x) (\<lambda>ys. bindE (flatMapE cb xs) (\<lambda>zs. Inr (ys @ zs)))"

text \<open>lodash \<^verbatim>\<open>uniqBy(xs, iteratee)\<close>: walks the array once, keeping an element when the
  value of the iteratee on it has not been seen before (\<open>seen\<close> collects those values).\<close>

fun uniqBy_from :: "'b list \<Rightarrow> ('a \<Rightarrow> 'b) \<Rightarrow> 'a list \<Rightarrow> 'a list" where
  "uniqBy_from seen iteratee [] = []"
| "uniqBy_from seen iteratee (x # xs) =
     (if iteratee x \<in> set seen then uniqBy_from seen iteratee xs
      else x # uniqBy_from (iteratee x # seen) iteratee xs)"

definition uniqBy :: "'a list \<Rightarrow> ('a \<Rightarrow> 'b) \<Rightarrow> 'a list" where
  "uniqBy xs iteratee = uniqBy_from [] iteratee xs"

section \<open>The container and the discovered records\<close>

text \<open>A class constructor (\<^verbatim>\<open>Type<any>\<close>): its identity and its \<^verbatim>\<open>name\<close> property.\<close>

record ClassType =
  ident :: ref
  type_name :: string

text \<open>\<^verbatim>\<open>InstanceWrapper\<close>: one registered component. Its \<^verbatim>\<open>metatype\<close> is absent
  (\<open>None\<close>) for a component without a class, such as a value provider, and its
  \<^verbatim>\<open>instance\<close> is absent (\<open>None\<close>) when it is \<^verbatim>\<open>null\<close> or \<^verbatim>\<open>undefined\<close>, as for a value
  provider with the value \<^verbatim>\<open>null\<close>. Any other instance is identified by a reference (a
  primitive value by the object it is coerced to).\<close>

record InstanceWrapper =
  wrapper_name :: string
  wrapper_instance :: "ref option"
  metatype :: "ref option"

text \<open>\<^verbatim>\<open>Module\<close>: its two component maps, in the maps' iteration order, its class and its
  instance.\<close>

record Module =
  routes :: "(string \<times> InstanceWrapper) list"
  components :: "(string \<times> InstanceWrapper) list"
  module_metatype :: ClassType
  module_instance :: "ref option"

text \<open>\<^verbatim>\<open>ModulesContainer\<close>: a map from tokens to modules, in iteration order.\<close>

type_synonym ModulesContainer = "(string \<times> Module) list"

text \<open>Modelled from the spec: the interfaces \<^verbatim>\<open>DiscoveredModule\<close>, \<^verbatim>\<open>DiscoveredClass\<close>,
  \<^verbatim>\<open>DiscoveredMethod\<close>, \<^verbatim>\<open>DiscoveredClassWithMeta\<close> and \<^verbatim>\<open>DiscoveredMethodWithMeta\<close>
  of \<^verbatim>\<open>discovery.interfaces\<close>, which is not among the sources. Their fields are the ones
  the service writes and reads. The field \<^verbatim>\<open>instance\<close> (here \<open>instance_obj\<close>) is the live
  object instance and \<^verbatim>\<open>classType\<close> the class constructor; the service copies both from
  the container as they are, so either may be absent. The \<^verbatim>\<open>handler\<close> of a method is the
  value the prototype binds to the method's name.\<close>

record DiscoveredModule =
  name :: string
  instance_obj :: "ref option"
  classType :: "ref option"

record DiscoveredClass = DiscoveredModule +
  parentModule :: DiscoveredModule

record DiscoveredMethod =
  handler :: "ref option"
  methodName :: string
  parentClass :: DiscoveredClass

text \<open>The two records with metadata share the field \<^verbatim>\<open>meta\<close>.\<close>

record WithMeta =
  meta :: jsval

record DiscoveredClassWithMeta = WithMeta +
  discoveredClass :: DiscoveredClass

record DiscoveredMethodWithMeta = WithMeta +
  discoveredMethod :: DiscoveredMethod

section \<open>External collaborators\<close>

text \<open>
  The annotation store, the object model and the prototype scanner are not part of the
  service; the service reads them through the following interface.
  \<^item> \<open>metadata k t\<close>: what the store holds under key \<open>k\<close> for the object \<open>t\<close>, on the
    object itself or along its prototype chain (\<open>None\<close> when nothing has been defined; a
    defined value may itself be falsy);
  \<^item> \<open>getPrototypeOf i\<close>: the prototype of an instance that is not \<^verbatim>\<open>null\<close> or
    \<^verbatim>\<open>undefined\<close>;
  \<^item> \<open>methodNames p\<close>: the method names the \<^verbatim>\<open>MetadataScanner\<close> enumerates from the
    prototype \<open>p\<close>, in scan order;
  \<^item> \<open>property p n\<close>: \<^verbatim>\<open>p[n]\<close>, the value the prototype binds to a name: \<open>Some\<close> of
    a reference when it is an object (a function), \<open>None\<close> when it is not an object.
\<close>

record Env =
  metadata :: "MetaKey \<Rightarrow> ref \<Rightarrow> jsval option"
  getPrototypeOf :: "ref \<Rightarrow> ref"
  methodNames :: "ref \<Rightarrow> string list"
  property :: "ref \<Rightarrow> string \<Rightarrow> ref option"

text \<open>\<^verbatim>\<open>Object.getPrototypeOf(o)\<close>: throws a \<^verbatim>\<open>TypeError\<close> when \<open>o\<close> is \<^verbatim>\<open>null\<close> or
  \<^verbatim>\<open>undefined\<close>, and returns the prototype otherwise.\<close>

definition Object_getPrototypeOf :: "Env \<Rightarrow> ref option \<Rightarrow> error + ref" where
  "Object_getPrototypeOf env obj =
     (case obj of None \<Rightarrow> Inl TypeError | Some i \<Rightarrow> Inr (getPrototypeOf env i))"

text \<open>\<^verbatim>\<open>Reflect.getMetadata(key, target)\<close>, as the \<^verbatim>\<open>reflect-metadata\<close> package defines
  it: "if Type(target) is not Object, throw a TypeError exception; return
  OrdinaryGetMetadata(key, target)". An absent class type is \<^verbatim>\<open>undefined\<close> or \<^verbatim>\<open>null\<close>, so
  it is not an object; for an object, the result is the value the store holds under the key,
  or \<^verbatim>\<open>undefined\<close> when it holds none. The service calls it unguarded.\<close>

definition OrdinaryGetMetadata :: "Env \<Rightarrow> MetaKey \<Rightarrow> ref \<Rightarrow> jsval" where
  "OrdinaryGetMetadata env key t = (case metadata env key t of None \<Rightarrow> Undefined | Some v \<Rightarrow> v)"

definition Reflect_getMetadata :: "Env \<Rightarrow> MetaKey \<Rightarrow> ref option \<Rightarrow> error + jsval" where
  "Reflect_getMetadata env key target =
     (case target of
        None \<Rightarrow> Inl TypeError
      | Some t \<Rightarrow> Inr (OrdinaryGetMetadata env key t))"

text \<open>\<^verbatim>\<open>has(key, target)\<close> of the annotation store: whether anything is defined under the
  key for the target. The service never calls it; it is what "the store reports metadata at
  the key" means.\<close>

definition hasMetadata :: "Env \<Rightarrow> MetaKey \<Rightarrow> ref option \<Rightarrow> bool" where
  "hasMetadata env key target =
     (case target of None \<Rightarrow> False | Some t \<Rightarrow> metadata env key t \<noteq> None)"

text \<open>\<^verbatim>\<open>MetadataScanner.scanFromPrototype(instance, prototype, callback)\<close>: the callback's
  results over the scanned method names. (The scanner drops \<^verbatim>\<open>null\<close> and \<^verbatim>\<open>undefined\<close>
  results; the callback used here always returns a record.)\<close>

definition scanFromPrototype ::
  "Env \<Rightarrow> ref option \<Rightarrow> ref \<Rightarrow> (string \<Rightarrow> error + 'a) \<Rightarrow> error + 'a list" where
  "scanFromPrototype env inst prototype callback = array_map callback (methodNames env prototype)"

text \<open>Modelled from the spec: the constant \<^verbatim>\<open>PATH_METADATA\<close> imported from
  \<^verbatim>\<open>@nestjs/common/constants\<close>, the framework's route-path key, which marks a method as a
  route handler.\<close>

definition PATH_METADATA :: MetaKey where
  "PATH_METADATA = ''path''"

section \<open>The discovery service\<close>

text \<open>\<^verbatim>\<open>withMetaAtKey(key)\<close>: the filter \<^verbatim>\<open>component => Reflect.getMetadata(key,
  component.classType)\<close>.\<close>

definition withMetaAtKey :: "Env \<Rightarrow> MetaKey \<Rightarrow> DiscoveredClass Filter" where
  "withMetaAtKey env key = (\<lambda>component. Reflect_getMetadata env key (classType component))"

text \<open>The two private, read-only lists of the service.\<close>

record DiscoveryService =
  discoveredControllers :: "DiscoveredClass list"
  discoveredProviders :: "DiscoveredClass list"

definition toDiscoveredClass :: "Module \<Rightarrow> InstanceWrapper \<Rightarrow> DiscoveredClass" where
  "toDiscoveredClass nestModule component =
     \<lparr> name = wrapper_name component,
       instance_obj = wrapper_instance component,
       classType = metatype component,
       parentModule =
         \<lparr> name = type_name (module_metatype nestModule),
           instance_obj = module_instance nestModule,
           classType = Some (ident (module_metatype nestModule)) \<rparr> \<rparr>"

text \<open>The constructor: both lists are built once from the container's entries.\<close>

definition new_DiscoveryService :: "ModulesContainer \<Rightarrow> DiscoveryService" where
  "new_DiscoveryService modulesContainer =
     (let modulesMap = modulesContainer in
      \<lparr> discoveredControllers =
          flatMap (\<lambda>(key, nestModule).
            (let components = map snd (routes nestModule)
             in map (\<lambda>component. toDiscoveredClass nestModule component) components)) modulesMap,
        discoveredProviders =
          flatMap (\<lambda>(key, nestModule).
            (let components = map snd (components nestModule)
             in map (\<lambda>component. toDiscoveredClass nestModule component) components)) modulesMap \<rparr>)"

definition providers :: "DiscoveryService \<Rightarrow> DiscoveredClass Filter \<Rightarrow> error + DiscoveredClass list" where
  "providers svc flt = array_filter (\<lambda>x. flt x) (discoveredProviders svc)"

definition controllers :: "DiscoveryService \<Rightarrow> DiscoveredClass Filter \<Rightarrow> error + DiscoveredClass list" where
  "controllers svc flt = array_filter (\<lambda>x. flt x) (discoveredControllers svc)"

definition providersWithMetaAtKey ::
  "Env \<Rightarrow> DiscoveryService \<Rightarrow> MetaKey \<Rightarrow> error + DiscoveredClassWithMeta list" where
  "providersWithMetaAtKey env svc metaKey =
     bindE (providers svc (withMetaAtKey env metaKey)) (\<lambda>ps.
       array_map (\<lambda>x. bindE (Reflect_getMetadata env metaKey (classType x))
                         (\<lambda>m. Inr \<lparr> meta = m, discoveredClass = x \<rparr>)) ps)"

definition controllersWithMetaAtKey ::
  "Env \<Rightarrow> DiscoveryService \<Rightarrow> MetaKey \<Rightarrow> error + DiscoveredClassWithMeta list" where
  "controllersWithMetaAtKey env svc metaKey =
     bindE (controllers svc (withMetaAtKey env metaKey)) (\<lambda>cs.
       array_map (\<lambda>x. bindE (Reflect_getMetadata env metaKey (classType x))
                         (\<lambda>m. Inr \<lparr> meta = m, discoveredClass = x \<rparr>)) cs)"

definition extractMethodMetaAtKey ::
  "Env \<Rightarrow> MetaKey \<Rightarrow> DiscoveredClass \<Rightarrow> ref \<Rightarrow> string \<Rightarrow> error + DiscoveredMethodWithMeta" where
  "extractMethodMetaAtKey env metaKey dc prototype mname =
     (let h = property env prototype mname
      in bindE (Reflect_getMetadata env metaKey h) (\<lambda>m.
           Inr \<lparr> meta = m,
                 discoveredMethod = \<lparr> handler = h, methodName = mname, parentClass = dc \<rparr> \<rparr>))"

definition classMethodsWithMetaAtKey ::
  "Env \<Rightarrow> DiscoveredClass \<Rightarrow> MetaKey \<Rightarrow> error + DiscoveredMethodWithMeta list" where
  "classMethodsWithMetaAtKey env component metaKey =
     (let inst = instance_obj component
      in bindE (Object_getPrototypeOf env inst) (\<lambda>prototype.
         bindE (scanFromPrototype env inst prototype
                  (\<lambda>n. extractMethodMetaAtKey env metaKey component prototype n))
           (array_filter (\<lambda>x. Inr (Bool (truthy (meta x)))))))"

text \<open>A filter parameter with a default (\<^verbatim>\<open>= x => true\<close>) is an optional argument.\<close>

definition default_filter :: "'a Filter option \<Rightarrow> 'a Filter" where
  "default_filter f = (case f of None \<Rightarrow> (\<lambda>x. Inr (Bool True)) | Some g \<Rightarrow> g)"

definition providerMethodsWithMetaAtKey ::
  "Env \<Rightarrow> DiscoveryService \<Rightarrow> MetaKey \<Rightarrow> DiscoveredClass Filter option
     \<Rightarrow> error + DiscoveredMethodWithMeta list" where
  "providerMethodsWithMetaAtKey env svc metaKey providerFilter =
     bindE (providers svc (default_filter providerFilter)) (\<lambda>ps.
       flatMapE (\<lambda>provider. classMethodsWithMetaAtKey env provider metaKey) ps)"

definition controllerMethodsWithMetaAtKey ::
  "Env \<Rightarrow> DiscoveryService \<Rightarrow> MetaKey \<Rightarrow> DiscoveredClass Filter option
     \<Rightarrow> error + DiscoveredMethodWithMeta list" where
  "controllerMethodsWithMetaAtKey env svc metaKey controllerFilter =
     bindE (controllers svc (default_filter controllerFilter)) (\<lambda>cs.
       flatMapE (\<lambda>controller. classMethodsWithMetaAtKey env controller metaKey) cs)"

definition methodsAndControllerMethodsWithMetaAtKey ::
  "Env \<Rightarrow> DiscoveryService \<Rightarrow> MetaKey \<Rightarrow> jsval Filter option
     \<Rightarrow> error + DiscoveredMethodWithMeta list" where
  "methodsAndControllerMethodsWithMetaAtKey env svc metaKey metaFilter =
     bindE (bindE (controllersWithMetaAtKey env svc metaKey)
              (array_filter (\<lambda>x. default_filter metaFilter (meta x))))
       (\<lambda>controllersWithMeta.
     bindE (flatMapE (\<lambda>controller.
              classMethodsWithMetaAtKey env (discoveredClass controller) PATH_METADATA)
              controllersWithMeta)
       (\<lambda>methodsFromDecoratedControllers.
     bindE (bindE (controllerMethodsWithMetaAtKey env svc metaKey None)
              (array_filter (\<lambda>x. default_filter metaFilter (meta x))))
       (\<lambda>decoratedMethods.
     Inr (uniqBy (methodsFromDecoratedControllers @ decoratedMethods)
            (\<lambda>x. handler (discoveredMethod x))))))"

section \<open>The specified behaviour, on plain lists\<close>

text \<open>The metadata value of a discovered class at a key (\<^verbatim>\<open>undefined\<close> when there is none).\<close>

definition class_meta :: "Env \<Rightarrow> MetaKey \<Rightarrow> DiscoveredClass \<Rightarrow> jsval" where
  "class_meta env k c = (case classType c of None \<Rightarrow> Undefined | Some t \<Rightarrow> OrdinaryGetMetadata env k t)"

definition with_class_meta :: "Env \<Rightarrow> MetaKey \<Rightarrow> DiscoveredClass \<Rightarrow> DiscoveredClassWithMeta" where
  "with_class_meta env k c = \<lparr> meta = class_meta env k c, discoveredClass = c \<rparr>"

text \<open>The class-level query as the specification words it: keep the classes for which the
  store reports metadata at the key, and pair each with the value read there.\<close>

definition spec_classesWithMetaAtKey ::
  "Env \<Rightarrow> MetaKey \<Rightarrow> DiscoveredClass list \<Rightarrow> DiscoveredClassWithMeta list" where
  "spec_classesWithMetaAtKey env k cs =
     map (with_class_meta env k) (filter (\<lambda>c. hasMetadata env k (classType c)) cs)"

text \<open>The class-level query on truthiness: keep the classes whose value at the key is
  truthy.\<close>

definition truthy_classesWithMetaAtKey ::
  "Env \<Rightarrow> MetaKey \<Rightarrow> DiscoveredClass list \<Rightarrow> DiscoveredClassWithMeta list" where
  "truthy_classesWithMetaAtKey env k cs =
     map (with_class_meta env k) (filter (\<lambda>c. truthy (class_meta env k c)) cs)"

text \<open>The method names scanned for a class, and the value its prototype binds to a name
  (none of either when the class has no instance).\<close>

definition names_of :: "Env \<Rightarrow> DiscoveredClass \<Rightarrow> string list" where
  "names_of env c =
     (case instance_obj c of None \<Rightarrow> [] | Some i \<Rightarrow> methodNames env (getPrototypeOf env i))"

definition handler_at :: "Env \<Rightarrow> DiscoveredClass \<Rightarrow> string \<Rightarrow> ref option" where
  "handler_at env c n =
     (case instance_obj c of None \<Rightarrow> None | Some i \<Rightarrow> property env (getPrototypeOf env i) n)"

text \<open>A class can be scanned when its instance is present and every scanned method name is
  bound to an object.\<close>

definition scannable :: "Env \<Rightarrow> DiscoveredClass \<Rightarrow> bool" where
  "scannable env c =
     (instance_obj c \<noteq> None \<and> list_all (\<lambda>n. handler_at env c n \<noteq> None) (names_of env c))"

text \<open>The entry of one scanned method name: the handler is read from the prototype of the
  class's instance, and the metadata from the handler.\<close>

definition method_entry :: "Env \<Rightarrow> MetaKey \<Rightarrow> DiscoveredClass \<Rightarrow> string \<Rightarrow> DiscoveredMethodWithMeta" where
  "method_entry env k c n =
     \<lparr> meta = (case handler_at env c n of None \<Rightarrow> Undefined | Some h \<Rightarrow> OrdinaryGetMetadata env k h),
       discoveredMethod = \<lparr> handler = handler_at env c n, methodName = n, parentClass = c \<rparr> \<rparr>"

definition scanned_methods :: "Env \<Rightarrow> DiscoveredClass \<Rightarrow> MetaKey \<Rightarrow> DiscoveredMethodWithMeta list" where
  "scanned_methods env c k = map (method_entry env k c) (names_of env c)"

definition tagged_methods :: "Env \<Rightarrow> DiscoveredClass \<Rightarrow> MetaKey \<Rightarrow> DiscoveredMethodWithMeta list" where
  "tagged_methods env c k = filter (\<lambda>x. truthy (meta x)) (scanned_methods env c k)"

definition handler_of :: "DiscoveredMethodWithMeta \<Rightarrow> ref option" where
  "handler_of x = handler (discoveredMethod x)"

text \<open>The two lists the composite query unites: the route handlers of the selected
  controllers, and the directly tagged methods of all controllers that pass the filter.\<close>

definition inherited_methods ::
  "Env \<Rightarrow> (jsval \<Rightarrow> bool) \<Rightarrow> DiscoveredClassWithMeta list \<Rightarrow> DiscoveredMethodWithMeta list" where
  "inherited_methods env p cs =
     concat (map (\<lambda>c. tagged_methods env (discoveredClass c) PATH_METADATA)
               (filter (\<lambda>c. p (meta c)) cs))"

definition direct_methods ::
  "Env \<Rightarrow> DiscoveryService \<Rightarrow> MetaKey \<Rightarrow> (jsval \<Rightarrow> bool) \<Rightarrow> DiscoveredMethodWithMeta list" where
  "direct_methods env svc k p =
     filter (\<lambda>m. p (meta m))
       (concat (map (\<lambda>c. tagged_methods env c k) (discoveredControllers svc)))"

text \<open>The composite query as the specification words it. Step 1 takes the controllers
  carrying metadata at the key at the class level whose meta passes the filter; step 2
  collects, for each of them, its methods carrying the route-path key; step 3 collects the
  methods of all controllers carrying the key itself whose meta passes the filter; step 4 is
  the union of the two lists by handler, the list of step 2 first.\<close>

definition spec_composite ::
  "Env \<Rightarrow> DiscoveryService \<Rightarrow> MetaKey \<Rightarrow> (jsval \<Rightarrow> bool) \<Rightarrow> DiscoveredMethodWithMeta list" where
  "spec_composite env svc k p =
     (let step1 = filter (\<lambda>c. hasMetadata env k (classType c) \<and> p (class_meta env k c))
                    (discoveredControllers svc);
          step2 = concat (map (\<lambda>c. tagged_methods env c PATH_METADATA) step1);
          step3 = filter (\<lambda>m. p (meta m))
                    (concat (map (\<lambda>c. tagged_methods env c k) (discoveredControllers svc)))
      in uniqBy (step2 @ step3) handler_of)"

text \<open>The same composition with step 1 on truthiness: the controllers whose value at the key
  is truthy and passes the filter.\<close>

definition truthy_composite ::
  "Env \<Rightarrow> DiscoveryService \<Rightarrow> MetaKey \<Rightarrow> (jsval \<Rightarrow> bool) \<Rightarrow> DiscoveredMethodWithMeta list" where
  "truthy_composite env svc k p =
     (let step1 = filter (\<lambda>c. truthy (class_meta env k c) \<and> p (class_meta env k c))
                    (discoveredControllers svc);
          step2 = concat (map (\<lambda>c. tagged_methods env c PATH_METADATA) step1);
          step3 = filter (\<lambda>m. p (meta m))
                    (concat (map (\<lambda>c. tagged_methods env c k) (discoveredControllers svc)))
      in uniqBy (step2 @ step3) handler_of)"

section \<open>The queries on a heap of arrays\<close>

text \<open>
  Arrays are mutable objects: a heap maps the references of the arrays built so far to their
  contents, and \<open>fresh\<close> is the next unused reference. The service object holds, in its two
  read-only fields, the references of the two arrays its constructor built. Every array
  operation the service uses (\<^verbatim>\<open>filter\<close>, \<^verbatim>\<open>map\<close>, \<^verbatim>\<open>flatMap\<close>, \<^verbatim>\<open>uniqBy\<close>, the spread into
  an array literal, the scanner's result) reads its argument arrays and builds a new array;
  a call that throws builds none. Filters and callbacks are functions of their argument.
\<close>

datatype array =
    Classes "DiscoveredClass list"
  | ClassesWithMeta "DiscoveredClassWithMeta list"
  | MethodsWithMeta "DiscoveredMethodWithMeta list"

record heap =
  cells :: "nat \<Rightarrow> array option"
  fresh :: nat

type_synonym 'a hres = "(error + 'a) \<times> heap"

definition alloc :: "array \<Rightarrow> heap \<Rightarrow> nat \<times> heap" where
  "alloc a h = (fresh h, \<lparr> cells = (cells h)(fresh h \<mapsto> a), fresh = Suc (fresh h) \<rparr>)"

definition classes_at :: "heap \<Rightarrow> nat \<Rightarrow> DiscoveredClass list" where
  "classes_at h a = (case cells h a of Some (Classes xs) \<Rightarrow> xs | _ \<Rightarrow> [])"

definition classes_with_meta_at :: "heap \<Rightarrow> nat \<Rightarrow> DiscoveredClassWithMeta list" where
  "classes_with_meta_at h a = (case cells h a of Some (ClassesWithMeta xs) \<Rightarrow> xs | _ \<Rightarrow> [])"

definition methods_at :: "heap \<Rightarrow> nat \<Rightarrow> DiscoveredMethodWithMeta list" where
  "methods_at h a = (case cells h a of Some (MethodsWithMeta xs) \<Rightarrow> xs | _ \<Rightarrow> [])"

text \<open>The array a call returns is a new object; a call that throws leaves the heap alone.\<close>

definition new_array :: "error + 'a list \<Rightarrow> ('a list \<Rightarrow> array) \<Rightarrow> heap \<Rightarrow> nat hres" where
  "new_array r mk h =
     (case r of Inl e \<Rightarrow> (Inl e, h) | Inr ys \<Rightarrow> (case alloc (mk ys) h of (b, h') \<Rightarrow> (Inr b, h')))"

definition bindH :: "'a hres \<Rightarrow> ('a \<Rightarrow> heap \<Rightarrow> 'b hres) \<Rightarrow> 'b hres" where
  "bindH m f = (case m of (Inl e, h) \<Rightarrow> (Inl e, h) | (Inr x, h) \<Rightarrow> f x h)"

definition h_filter ::
  "(heap \<Rightarrow> nat \<Rightarrow> 'a list) \<Rightarrow> ('a list \<Rightarrow> array) \<Rightarrow> 'a Filter \<Rightarrow> nat \<Rightarrow> heap \<Rightarrow> nat hres" where
  "h_filter rd mk cb a h = new_array (array_filter cb (rd h a)) mk h"

definition h_map ::
  "(heap \<Rightarrow> nat \<Rightarrow> 'a list) \<Rightarrow> ('b list \<Rightarrow> array) \<Rightarrow> ('a \<Rightarrow> error + 'b) \<Rightarrow> nat \<Rightarrow> heap \<Rightarrow> nat hres" where
  "h_map rd mk cb a h = new_array (array_map cb (rd h a)) mk h"

text \<open>\<^verbatim>\<open>flatMap\<close> with a callback that itself builds an array: the callback runs on each
  element in order, and the arrays it returned are then read and concatenated.\<close>

fun h_collect :: "('a \<Rightarrow> heap \<Rightarrow> nat hres) \<Rightarrow> 'a list \<Rightarrow> heap \<Rightarrow> nat list hres" where
  "h_collect cb [] h = (Inr [], h)"
| "h_collect cb (x # xs) h =
     bindH (cb x h) (\<lambda>a h1. bindH (h_collect cb xs h1) (\<lambda>as h2. (Inr (a # as), h2)))"

definition h_flatMap ::
  "(heap \<Rightarrow> nat \<Rightarrow> 'a list) \<Rightarrow> ('a \<Rightarrow> heap \<Rightarrow> nat hres) \<Rightarrow> nat \<Rightarrow> heap \<Rightarrow> nat hres" where
  "h_flatMap rd cb a h =
     bindH (h_collect cb (rd h a) h) (\<lambda>as h1.
       new_array (Inr (concat (map (methods_at h1) as))) MethodsWithMeta h1)"

definition h_spread :: "nat \<Rightarrow> nat \<Rightarrow> heap \<Rightarrow> nat hres" where
  "h_spread a b h = new_array (Inr (methods_at h a @ methods_at h b)) MethodsWithMeta h"

definition h_uniqBy :: "nat \<Rightarrow> (DiscoveredMethodWithMeta \<Rightarrow> 'b) \<Rightarrow> heap \<Rightarrow> nat hres" where
  "h_uniqBy a iteratee h = new_array (Inr (uniqBy (methods_at h a) iteratee)) MethodsWithMeta h"

definition h_scanFromPrototype ::
  "Env \<Rightarrow> ref option \<Rightarrow> ref \<Rightarrow> (string \<Rightarrow> error + DiscoveredMethodWithMeta) \<Rightarrow> heap \<Rightarrow> nat hres" where
  "h_scanFromPrototype env inst prototype callback h =
     new_array (scanFromPrototype env inst prototype callback) MethodsWithMeta h"

text \<open>The service object, and its constructor on the heap.\<close>

record ServiceObject =
  controllers_ref :: nat
  providers_ref :: nat

definition h_new_DiscoveryService :: "ModulesContainer \<Rightarrow> heap \<Rightarrow> ServiceObject \<times> heap" where
  "h_new_DiscoveryService modulesContainer h =
     (case alloc (Classes (discoveredControllers (new_DiscoveryService modulesContainer))) h of
        (c, h1) \<Rightarrow>
     (case alloc (Classes (discoveredProviders (new_DiscoveryService modulesContainer))) h1 of
        (p, h2) \<Rightarrow> (\<lparr> controllers_ref = c, providers_ref = p \<rparr>, h2)))"

text \<open>The contents of the service's two arrays in a heap.\<close>

definition snapshot :: "heap \<Rightarrow> ServiceObject \<Rightarrow> DiscoveryService" where
  "snapshot h obj =
     \<lparr> discoveredControllers = classes_at h (controllers_ref obj),
       discoveredProviders = classes_at h (providers_ref obj) \<rparr>"

definition h_providers :: "ServiceObject \<Rightarrow> DiscoveredClass Filter \<Rightarrow> heap \<Rightarrow> nat hres" where
  "h_providers obj flt h = h_filter classes_at Classes (\<lambda>x. flt x) (providers_ref obj) h"

definition h_controllers :: "ServiceObject \<Rightarrow> DiscoveredClass Filter \<Rightarrow> heap \<Rightarrow> nat hres" where
  "h_controllers obj flt h = h_filter classes_at Classes (\<lambda>x. flt x) (controllers_ref obj) h"

definition h_providersWithMetaAtKey :: "Env \<Rightarrow> ServiceObject \<Rightarrow> MetaKey \<Rightarrow> heap \<Rightarrow> nat hres" where
  "h_providersWithMetaAtKey env obj metaKey h =
     bindH (h_providers obj (withMetaAtKey env metaKey) h) (\<lambda>ps h1.
       h_map classes_at ClassesWithMeta
         (\<lambda>x. bindE (Reflect_getMetadata env metaKey (classType x))
                 (\<lambda>m. Inr \<lparr> meta = m, discoveredClass = x \<rparr>)) ps h1)"

definition h_controllersWithMetaAtKey :: "Env \<Rightarrow> ServiceObject \<Rightarrow> MetaKey \<Rightarrow> heap \<Rightarrow> nat hres" where
  "h_controllersWithMetaAtKey env obj metaKey h =
     bindH (h_controllers obj (withMetaAtKey env metaKey) h) (\<lambda>cs h1.
       h_map classes_at ClassesWithMeta
         (\<lambda>x. bindE (Reflect_getMetadata env metaKey (classType x))
                 (\<lambda>m. Inr \<lparr> meta = m, discoveredClass = x \<rparr>)) cs h1)"

definition h_classMethodsWithMetaAtKey ::
  "Env \<Rightarrow> DiscoveredClass \<Rightarrow> MetaKey \<Rightarrow> heap \<Rightarrow> nat hres" where
  "h_classMethodsWithMetaAtKey env component metaKey h =
     (let inst = instance_obj component
      in (case Object_getPrototypeOf env inst of
            Inl e \<Rightarrow> (Inl e, h)
          | Inr prototype \<Rightarrow>
              bindH (h_scanFromPrototype env inst prototype
                       (\<lambda>n. extractMethodMetaAtKey env metaKey component prototype n) h)
                (\<lambda>a h1. h_filter methods_at MethodsWithMeta
                           (\<lambda>x. Inr (Bool (truthy (meta x)))) a h1)))"

definition h_providerMethodsWithMetaAtKey ::
  "Env \<Rightarrow> ServiceObject \<Rightarrow> MetaKey \<Rightarrow> DiscoveredClass Filter option \<Rightarrow> heap \<Rightarrow> nat hres" where
  "h_providerMethodsWithMetaAtKey env obj metaKey providerFilter h =
     bindH (h_providers obj (default_filter providerFilter) h) (\<lambda>ps h1.
       h_flatMap classes_at
         (\<lambda>provider. h_classMethodsWithMetaAtKey env provider metaKey) ps h1)"

definition h_controllerMethodsWithMetaAtKey ::
  "Env \<Rightarrow> ServiceObject \<Rightarrow> MetaKey \<Rightarrow> DiscoveredClass Filter option \<Rightarrow> heap \<Rightarrow> nat hres" where
  "h_controllerMethodsWithMetaAtKey env obj metaKey controllerFilter h =
     bindH (h_controllers obj (default_filter controllerFilter) h) (\<lambda>cs h1.
       h_flatMap classes_at
         (\<lambda>controller. h_classMethodsWithMetaAtKey env controller metaKey) cs h1)"

definition h_methodsAndControllerMethodsWithMetaAtKey ::
  "Env \<Rightarrow> ServiceObject \<Rightarrow> MetaKey \<Rightarrow> jsval Filter option \<Rightarrow> heap \<Rightarrow> nat hres" where
  "h_methodsAndControllerMethodsWithMetaAtKey env obj metaKey metaFilter h =
     bindH (bindH (h_controllersWithMetaAtKey env obj metaKey h)
              (h_filter classes_with_meta_at ClassesWithMeta
                 (\<lambda>x. default_filter metaFilter (meta x))))
       (\<lambda>controllersWithMeta h1.
     bindH (h_flatMap classes_with_meta_at
              (\<lambda>controller.
                 h_classMethodsWithMetaAtKey env (discoveredClass controller) PATH_METADATA)
              controllersWithMeta h1)
       (\<lambda>methodsFromDecoratedControllers h2.
     bindH (bindH (h_controllerMethodsWithMetaAtKey env obj metaKey None h2)
              (h_filter methods_at MethodsWithMeta
                 (\<lambda>x. default_filter metaFilter (meta x))))
       (\<lambda>decoratedMethods h3.
     bindH (h_spread methodsFromDecoratedControllers decoratedMethods h3)
       (\<lambda>both h4. h_uniqBy both (\<lambda>x. handler (discoveredMethod x)) h4))))"

text \<open>The eight query methods as one interface: a call, on the heap and as a value.\<close>

datatype query =
    Providers "DiscoveredClass Filter"
  | MethodsAndControllerMethodsWithMetaAtKey MetaKey "jsval Filter option"
  | ProvidersWithMetaAtKey MetaKey
  | Controllers "DiscoveredClass Filter"
  | ControllersWithMetaAtKey MetaKey
  | ClassMethodsWithMetaAtKey DiscoveredClass MetaKey
  | ProviderMethodsWithMetaAtKey MetaKey "DiscoveredClass Filter option"
  | ControllerMethodsWithMetaAtKey MetaKey "DiscoveredClass Filter option"

fun h_call :: "Env \<Rightarrow> query \<Rightarrow> ServiceObject \<Rightarrow> heap \<Rightarrow> nat hres" where
  "h_call env (Providers f) obj h = h_providers obj f h"
| "h_call env (MethodsAndControllerMethodsWithMetaAtKey k f) obj h =
     h_methodsAndControllerMethodsWithMetaAtKey env obj k f h"
| "h_call env (ProvidersWithMetaAtKey k) obj h = h_providersWithMetaAtKey env obj k h"
| "h_call env (Controllers f) obj h = h_controllers obj f h"
| "h_call env (ControllersWithMetaAtKey k) obj h = h_controllersWithMetaAtKey env obj k h"
| "h_call env (ClassMethodsWithMetaAtKey c k) obj h = h_classMethodsWithMetaAtKey env c k h"
| "h_call env (ProviderMethodsWithMetaAtKey k f) obj h =
     h_providerMethodsWithMetaAtKey env obj k f h"
| "h_call env (ControllerMethodsWithMetaAtKey k f) obj h =
     h_controllerMethodsWithMetaAtKey env obj k f h"

fun value_of :: "Env \<Rightarrow> query \<Rightarrow> DiscoveryService \<Rightarrow> error + array" where
  "value_of env (Providers f) svc = map_sum id Classes (providers svc f)"
| "value_of env (MethodsAndControllerMethodsWithMetaAtKey k f) svc =
     map_sum id MethodsWithMeta (methodsAndControllerMethodsWithMetaAtKey env svc k f)"
| "value_of env (ProvidersWithMetaAtKey k) svc =
     map_sum id ClassesWithMeta (providersWithMetaAtKey env svc k)"
| "value_of env (Controllers f) svc = map_sum id Classes (controllers svc f)"
| "value_of env (ControllersWithMetaAtKey k) svc =
     map_sum id ClassesWithMeta (controllersWithMetaAtKey env svc k)"
| "value_of env (ClassMethodsWithMetaAtKey c k) svc =
     map_sum id MethodsWithMeta (classMethodsWithMetaAtKey env c k)"
| "value_of env (ProviderMethodsWithMetaAtKey k f) svc =
     map_sum id MethodsWithMeta (providerMethodsWithMetaAtKey env svc k f)"
| "value_of env (ControllerMethodsWithMetaAtKey k f) svc =
     map_sum id MethodsWithMeta (controllerMethodsWithMetaAtKey env svc k f)"

text \<open>The outcome of a call as a value: the exception, or the contents of the returned
  array.\<close>

definition result_at :: "heap \<Rightarrow> error + nat \<Rightarrow> error + array option" where
  "result_at h r = map_sum id (cells h) r"

text \<open>A call on heap \<open>h\<close> keeps every array of \<open>h\<close> as it was, and its outcome is the value
  \<open>v\<close>.\<close>

definition refines :: "nat hres \<Rightarrow> heap \<Rightarrow> error + array \<Rightarrow> bool" where
  "refines res h v =
     (case res of (r, h') \<Rightarrow>
        fresh h \<le> fresh h' \<and> (\<forall>a < fresh h. cells h' a = cells h a) \<and>
        (case r of
           Inl e \<Rightarrow> v = Inl e
         | Inr b \<Rightarrow> b < fresh h' \<and> (\<exists>x. cells h' b = Some x \<and> v = Inr x)))"

section \<open>A sample application\<close>

text \<open>
  One module with two controllers and one provider. The class of \<open>AdminController\<close>
  (reference 10) carries \<open>''roles''\<close>; its method \<open>list\<close> (handler 200) is a route handler
  and is also tagged with \<open>''roles''\<close> itself, its method \<open>helper\<close> (handler 201) is neither.
  \<open>PlainController\<close> (reference 11) carries nothing; its method \<open>find\<close> (handler 202) is a
  route handler tagged with \<open>''roles''\<close>. The class of the provider (reference 20) carries
  \<open>''roles''\<close>. The class of \<open>ZeroController\<close> (reference 12) carries the falsy value 0
  under \<open>''roles''\<close>; its method \<open>ping\<close> (handler 203) is a route handler.
\<close>

definition sample_env :: Env where
  "sample_env =
     \<lparr> metadata = (\<lambda>k t.
         if k = ''roles'' \<and> t = 10 then Some (Str ''admin'')
         else if k = ''roles'' \<and> t = 12 then Some (Num 0)
         else if k = ''roles'' \<and> t = 20 then Some (Str ''svc'')
         else if k = ''path'' \<and> t = 200 then Some (Str ''/list'')
         else if k = ''roles'' \<and> t = 200 then Some (Str ''user'')
         else if k = ''path'' \<and> t = 202 then Some (Str ''/find'')
         else if k = ''roles'' \<and> t = 202 then Some (Str ''guest'')
         else if k = ''path'' \<and> t = 203 then Some (Str ''/ping'')
         else None),
       getPrototypeOf = (\<lambda>i. i + 100),
       methodNames = (\<lambda>p.
         if p = 130 then [''list'', ''helper'']
         else if p = 131 then [''find'']
         else if p = 132 then [''ping'']
         else []),
       property = (\<lambda>p n.
         if p = 130 \<and> n = ''list'' then Some 200
         else if p = 130 \<and> n = ''helper'' then Some 201
         else if p = 131 \<and> n = ''find'' then Some 202
         else if p = 132 \<and> n = ''ping'' then Some 203
         else None) \<rparr>"

definition admin_wrapper :: InstanceWrapper where
  "admin_wrapper =
     \<lparr> wrapper_name = ''AdminController'', wrapper_instance = Some 30, metatype = Some 10 \<rparr>"

definition plain_wrapper :: InstanceWrapper where
  "plain_wrapper =
     \<lparr> wrapper_name = ''PlainController'', wrapper_instance = Some 31, metatype = Some 11 \<rparr>"

definition zero_wrapper :: InstanceWrapper where
  "zero_wrapper =
     \<lparr> wrapper_name = ''ZeroController'', wrapper_instance = Some 32, metatype = Some 12 \<rparr>"

definition service_wrapper :: InstanceWrapper where
  "service_wrapper =
     \<lparr> wrapper_name = ''RoleService'', wrapper_instance = Some 40, metatype = Some 20 \<rparr>"

text \<open>A value provider whose value is an object: it has an instance and no class.\<close>

definition value_wrapper :: InstanceWrapper where
  "value_wrapper = \<lparr> wrapper_name = ''CONFIG'', wrapper_instance = Some 41, metatype = None \<rparr>"

text \<open>A value provider whose value is \<^verbatim>\<open>null\<close>: it has neither an instance nor a class.\<close>

definition null_wrapper :: InstanceWrapper where
  "null_wrapper = \<lparr> wrapper_name = ''EMPTY'', wrapper_instance = None, metatype = None \<rparr>"

definition sample_module :: Module where
  "sample_module =
     \<lparr> routes = [(''AdminController'', admin_wrapper), (''PlainController'', plain_wrapper)],
       components = [(''RoleService'', service_wrapper)],
       module_metatype = \<lparr> ident = 1, type_name = ''AppModule'' \<rparr>,
       module_instance = Some 2 \<rparr>"

text \<open>The same module with the controller whose class carries a falsy value.\<close>

definition zero_module :: Module where
  "zero_module = sample_module \<lparr> routes := [(''ZeroController'', zero_wrapper)] \<rparr>"

text \<open>The same module with a value provider registered after the class provider.\<close>

definition value_module :: Module where
  "value_module =
     sample_module \<lparr> components := [(''RoleService'', service_wrapper), (''CONFIG'', value_wrapper)] \<rparr>"

definition null_module :: Module where
  "null_module =
     sample_module \<lparr> components := [(''RoleService'', service_wrapper), (''EMPTY'', null_wrapper)] \<rparr>"

definition sample_service :: DiscoveryService where
  "sample_service = new_DiscoveryService [(''AppModule'', sample_module)]"

definition zero_service :: DiscoveryService where
  "zero_service = new_DiscoveryService [(''AppModule'', zero_module)]"

definition value_service :: DiscoveryService where
  "value_service = new_DiscoveryService [(''AppModule'', value_module)]"

definition null_service :: DiscoveryService where
  "null_service = new_DiscoveryService [(''AppModule'', null_module)]"

text \<open>The records the constructor is to build for these components.\<close>

definition app_module :: DiscoveredModule where
  "app_module = \<lparr> name = ''AppModule'', instance_obj = Some 2, classType = Some 1 \<rparr>"

definition admin_class :: DiscoveredClass where
  "admin_class =
     \<lparr> name = ''AdminController'', instance_obj = Some 30, classType = Some 10,
       parentModule = app_module \<rparr>"

definition plain_class :: DiscoveredClass where
  "plain_class =
     \<lparr> name = ''PlainController'', instance_obj = Some 31, classType = Some 11,
       parentModule = app_module \<rparr>"

definition zero_class :: DiscoveredClass where
  "zero_class =
     \<lparr> name = ''ZeroController'', instance_obj = Some 32, classType = Some 12,
       parentModule = app_module \<rparr>"

definition service_class :: DiscoveredClass where
  "service_class =
     \<lparr> name = ''RoleService'', instance_obj = Some 40, classType = Some 20,
       parentModule = app_module \<rparr>"

definition value_class :: DiscoveredClass where
  "value_class =
     \<lparr> name = ''CONFIG'', instance_obj = Some 41, classType = None, parentModule = app_module \<rparr>"

definition null_class :: DiscoveredClass where
  "null_class =
     \<lparr> name = ''EMPTY'', instance_obj = None, classType = None, parentModule = app_module \<rparr>"

text \<open>The entries the scans of the sample classes are to yield.\<close>

definition list_method :: "jsval \<Rightarrow> DiscoveredMethodWithMeta" where
  "list_method m =
     \<lparr> meta = m,
       discoveredMethod = \<lparr> handler = Some 200, methodName = ''list'', parentClass = admin_class \<rparr> \<rparr>"

definition find_method :: "jsval \<Rightarrow> DiscoveredMethodWithMeta" where
  "find_method m =
     \<lparr> meta = m,
       discoveredMethod = \<lparr> handler = Some 202, methodName = ''find'', parentClass = plain_class \<rparr> \<rparr>"

definition ping_method :: "jsval \<Rightarrow> DiscoveredMethodWithMeta" where
  "ping_method m =
     \<lparr> meta = m,
       discoveredMethod = \<lparr> handler = Some 203, methodName = ''ping'', parentClass = zero_class \<rparr> \<rparr>"

definition empty_heap :: heap where
  "empty_heap = \<lparr> cells = (\<lambda>a. None), fresh = 0 \<rparr>"

text \<open>The service object and the heap its constructor leaves, starting from no arrays.\<close>

definition sample_object :: ServiceObject where
  "sample_object = fst (h_new_DiscoveryService [(''AppModule'', sample_module)] empty_heap)"

definition sample_heap :: heap where
  "sample_heap = snd (h_new_DiscoveryService [(''AppModule'', sample_module)] empty_heap)"

section \<open>Facts about the array operations\<close>

lemma bindE_Inl: "bindE (Inl e) f = Inl e"
  by (simp add: bindE_def)

lemma bindE_Inr: "bindE (Inr x) f = f x"
  by (simp add: bindE_def)

lemma error_is_TypeError: "(e::error) = TypeError"
  by (cases e) simp

lemma array_filter_total:
  "(\<And>x. x \<in> set xs \<Longrightarrow> cb x = Inr (g x)) \<Longrightarrow>
   array_filter cb xs = Inr (filter (\<lambda>x. truthy (g x)) xs)"
  by (induction xs) (simp_all add: bindE_Inr)

lemma array_filter_pure: "array_filter (pure_filter p) xs = Inr (filter p xs)"
  using array_filter_total [of xs "pure_filter p" "\<lambda>x. Bool (p x)"]
  by (simp add: pure_filter_def)

lemma array_filter_throws:
  "x \<in> set xs \<Longrightarrow> cb x = Inl e \<Longrightarrow> array_filter cb xs = Inl TypeError"
proof (induction xs)
  case Nil
  then show ?case by simp
next
  case (Cons y ys)
  show ?case
  proof (cases "cb y")
    case (Inl e')
    then show ?thesis by (simp add: bindE_Inl error_is_TypeError [of e'])
  next
    case (Inr v)
    with Cons have "array_filter cb ys = Inl TypeError" by auto
    with Inr show ?thesis by (simp add: bindE_Inl bindE_Inr)
  qed
qed

lemma array_map_total:
  "(\<And>x. x \<in> set xs \<Longrightarrow> cb x = Inr (g x)) \<Longrightarrow> array_map cb xs = Inr (map g xs)"
  by (induction xs) (simp_all add: bindE_Inr)

lemma flatMapE_total:
  "(\<And>x. x \<in> set xs \<Longrightarrow> cb x = Inr (g x)) \<Longrightarrow> flatMapE cb xs = Inr (concat (map g xs))"
  by (induction xs) (simp_all add: bindE_Inr)

lemma array_map_throws:
  "x \<in> set xs \<Longrightarrow> cb x = Inl e \<Longrightarrow> array_map cb xs = Inl TypeError"
proof (induction xs)
  case Nil
  then show ?case by simp
next
  case (Cons y ys)
  show ?case
  proof (cases "cb y")
    case (Inl e')
    then show ?thesis by (simp add: bindE_Inl error_is_TypeError [of e'])
  next
    case (Inr v)
    with Cons have "array_map cb ys = Inl TypeError" by auto
    with Inr show ?thesis by (simp add: bindE_Inl bindE_Inr)
  qed
qed

lemma flatMapE_array_map:
  "flatMapE cb xs = bindE (array_map cb xs) (\<lambda>yss. Inr (concat yss))"
proof (induction xs)
  case Nil
  show ?case by (simp add: bindE_Inr)
next
  case (Cons x xs)
  show ?case
  proof (cases "cb x")
    case (Inl e)
    then show ?thesis by (simp add: bindE_Inl)
  next
    case (Inr ys)
    then show ?thesis
      using Cons.IH by (cases "array_map cb xs") (simp_all add: bindE_Inl bindE_Inr)
  qed
qed

lemma flatMapE_throws:
  "x \<in> set xs \<Longrightarrow> cb x = Inl e \<Longrightarrow> flatMapE cb xs = Inl TypeError"
  by (simp add: flatMapE_array_map array_map_throws [of x xs cb e] bindE_Inl)

lemma bindE_eq_Inr: "bindE m f = Inr r \<longleftrightarrow> (\<exists>x. m = Inr x \<and> f x = Inr r)"
  by (cases m) (simp_all add: bindE_def)

subsection \<open>\<open>uniqBy\<close>: distinct keys, first occurrence, original order\<close>

lemma uniqBy_from_set_cong:
  "set s1 = set s2 \<Longrightarrow> uniqBy_from s1 f xs = uniqBy_from s2 f xs"
proof (induction xs arbitrary: s1 s2)
  case Nil
  show ?case by simp
next
  case (Cons x xs)
  from Cons.prems have "set (f x # s1) = set (f x # s2)" by simp
  from Cons.IH [OF this] Cons.IH [OF Cons.prems] Cons.prems show ?case by simp
qed

lemma uniqBy_from_filter:
  "uniqBy_from (s @ t) f xs = filter (\<lambda>x. f x \<notin> set s) (uniqBy_from t f xs)"
proof (induction xs arbitrary: s t)
  case Nil
  show ?case by simp
next
  case (Cons x xs)
  have a: "uniqBy_from (f x # s @ t) f xs = uniqBy_from (s @ f x # t) f xs"
    by (rule uniqBy_from_set_cong) auto
  have b: "f x \<in> set s \<Longrightarrow> uniqBy_from (s @ t) f xs = uniqBy_from (s @ f x # t) f xs"
    by (rule uniqBy_from_set_cong) auto
  show ?case
    using Cons.IH [of s t] Cons.IH [of s "f x # t"] a b by auto
qed

lemma uniqBy_from_append:
  "uniqBy_from s f (xs @ ys) = uniqBy_from s f xs @ uniqBy_from (map f xs @ s) f ys"
proof (induction xs arbitrary: s)
  case Nil
  show ?case by simp
next
  case (Cons x xs)
  have a: "f x \<in> set s \<Longrightarrow> uniqBy_from (map f xs @ s) f ys = uniqBy_from (f x # map f xs @ s) f ys"
    by (rule uniqBy_from_set_cong) auto
  have b: "uniqBy_from (map f xs @ f x # s) f ys = uniqBy_from (f x # map f xs @ s) f ys"
    by (rule uniqBy_from_set_cong) auto
  show ?case using Cons.IH [of s] Cons.IH [of "f x # s"] a b by auto
qed

lemma uniqBy_from_keys:
  "f ` set (uniqBy_from s f xs) = f ` set xs - set s"
  by (induction xs arbitrary: s) auto

lemma uniqBy_from_distinct: "distinct (map f (uniqBy_from s f xs))"
proof (induction xs arbitrary: s)
  case Nil
  show ?case by simp
next
  case (Cons x xs)
  have "f x \<notin> f ` set (uniqBy_from (f x # s) f xs)"
    by (simp add: uniqBy_from_keys)
  with Cons.IH show ?case by auto
qed

lemma uniqBy_from_subseq: "subseq (uniqBy_from s f xs) xs"
  by (induction xs arbitrary: s) auto

lemma uniqBy_from_first:
  "x \<in> set (uniqBy_from s f xs) \<Longrightarrow> find (\<lambda>y. f y = f x) xs = Some x"
proof (induction xs arbitrary: s)
  case Nil
  then show ?case by simp
next
  case (Cons y ys)
  show ?case
  proof (cases "f y = f x")
    case True
    have "f y \<notin> f ` set (uniqBy_from (f y # s) f ys)"
      by (simp add: uniqBy_from_keys)
    with True have a: "x \<notin> set (uniqBy_from (f y # s) f ys)" by auto
    have "f x \<notin> f ` set (uniqBy_from s f ys) \<or> f x \<notin> set s"
      by (simp add: uniqBy_from_keys)
    then have b: "f x \<in> set s \<Longrightarrow> x \<notin> set (uniqBy_from s f ys)" by auto
    from Cons.prems True a b have "x = y" by (auto split: if_splits)
    with True show ?thesis by simp
  next
    case False
    with Cons.prems have "x \<in> set (uniqBy_from s f ys) \<or> x \<in> set (uniqBy_from (f y # s) f ys)"
      by (auto split: if_splits)
    with Cons.IH False show ?thesis by auto
  qed
qed

lemma uniqBy_append:
  "uniqBy (xs @ ys) f = uniqBy xs f @ filter (\<lambda>y. f y \<notin> f ` set xs) (uniqBy ys f)"
  using uniqBy_from_append [of "[]" f xs ys] uniqBy_from_filter [of "map f xs" "[]" f ys]
  by (simp add: uniqBy_def)

lemma uniqBy_distinct: "distinct (map f (uniqBy xs f))"
  by (simp add: uniqBy_def uniqBy_from_distinct)

lemma uniqBy_first: "x \<in> set (uniqBy xs f) \<Longrightarrow> find (\<lambda>y. f y = f x) xs = Some x"
  unfolding uniqBy_def by (rule uniqBy_from_first)

lemma uniqBy_subseq: "subseq (uniqBy xs f) xs"
  unfolding uniqBy_def by (rule uniqBy_from_subseq)

section \<open>What each query computes\<close>

lemma withMetaAtKey_typed:
  "classType c \<noteq> None \<Longrightarrow> withMetaAtKey env k c = Inr (class_meta env k c)"
  by (auto simp: withMetaAtKey_def Reflect_getMetadata_def class_meta_def)

lemma withMetaAtKey_untyped:
  "classType c = None \<Longrightarrow> withMetaAtKey env k c = Inl TypeError"
  by (simp add: withMetaAtKey_def Reflect_getMetadata_def)

lemma pair_with_meta_typed:
  "classType c \<noteq> None \<Longrightarrow>
   bindE (Reflect_getMetadata env k (classType c)) (\<lambda>m. Inr \<lparr> meta = m, discoveredClass = c \<rparr>)
     = Inr (with_class_meta env k c)"
  by (auto simp: Reflect_getMetadata_def class_meta_def with_class_meta_def bindE_Inr)

lemma classesWithMeta_typed:
  assumes "list_all (\<lambda>c. classType c \<noteq> None) cs"
  shows "bindE (array_filter (\<lambda>x. withMetaAtKey env k x) cs) (\<lambda>ps.
           array_map (\<lambda>x. bindE (Reflect_getMetadata env k (classType x))
                             (\<lambda>m. Inr \<lparr> meta = m, discoveredClass = x \<rparr>)) ps)
         = Inr (truthy_classesWithMetaAtKey env k cs)"
proof -
  from assms have typed: "\<And>c. c \<in> set cs \<Longrightarrow> classType c \<noteq> None"
    by (simp add: list_all_iff)
  have f: "array_filter (\<lambda>x. withMetaAtKey env k x) cs
             = Inr (filter (\<lambda>c. truthy (class_meta env k c)) cs)"
    by (rule array_filter_total) (simp add: withMetaAtKey_typed typed)
  have m: "array_map (\<lambda>x. bindE (Reflect_getMetadata env k (classType x))
                             (\<lambda>m. Inr \<lparr> meta = m, discoveredClass = x \<rparr>))
             (filter (\<lambda>c. truthy (class_meta env k c)) cs)
           = Inr (map (with_class_meta env k) (filter (\<lambda>c. truthy (class_meta env k c)) cs))"
    by (rule array_map_total) (simp add: pair_with_meta_typed typed)
  show ?thesis
    by (simp add: f m bindE_Inr truthy_classesWithMetaAtKey_def)
qed

lemma classesWithMeta_untyped:
  assumes "c \<in> set cs" and "classType c = None"
  shows "bindE (array_filter (\<lambda>x. withMetaAtKey env k x) cs) f = Inl TypeError"
proof -
  have "array_filter (\<lambda>x. withMetaAtKey env k x) cs = Inl TypeError"
    using assms(1) withMetaAtKey_untyped [OF assms(2)] by (rule array_filter_throws)
  then show ?thesis by (simp add: bindE_Inl)
qed

lemma controllersWithMetaAtKey_typed:
  "list_all (\<lambda>c. classType c \<noteq> None) (discoveredControllers svc) \<Longrightarrow>
   controllersWithMetaAtKey env svc k
     = Inr (truthy_classesWithMetaAtKey env k (discoveredControllers svc))"
  unfolding controllersWithMetaAtKey_def controllers_def by (rule classesWithMeta_typed)

lemma providersWithMetaAtKey_typed:
  "list_all (\<lambda>c. classType c \<noteq> None) (discoveredProviders svc) \<Longrightarrow>
   providersWithMetaAtKey env svc k
     = Inr (truthy_classesWithMetaAtKey env k (discoveredProviders svc))"
  unfolding providersWithMetaAtKey_def providers_def by (rule classesWithMeta_typed)

lemma controllersWithMetaAtKey_untyped:
  "c \<in> set (discoveredControllers svc) \<Longrightarrow> classType c = None \<Longrightarrow>
   controllersWithMetaAtKey env svc k = Inl TypeError"
  unfolding controllersWithMetaAtKey_def controllers_def by (rule classesWithMeta_untyped)

lemma providersWithMetaAtKey_untyped:
  "c \<in> set (discoveredProviders svc) \<Longrightarrow> classType c = None \<Longrightarrow>
   providersWithMetaAtKey env svc k = Inl TypeError"
  unfolding providersWithMetaAtKey_def providers_def by (rule classesWithMeta_untyped)

subsection \<open>The method-level queries\<close>

lemma Object_getPrototypeOf_Some:
  "Object_getPrototypeOf env (Some i) = Inr (getPrototypeOf env i)"
  by (simp add: Object_getPrototypeOf_def)

lemma Object_getPrototypeOf_None: "Object_getPrototypeOf env None = Inl TypeError"
  by (simp add: Object_getPrototypeOf_def)

lemma extractMethodMetaAtKey_bound:
  assumes "instance_obj c = Some i" and "handler_at env c n \<noteq> None"
  shows "extractMethodMetaAtKey env k c (getPrototypeOf env i) n = Inr (method_entry env k c n)"
  using assms
  by (auto simp: extractMethodMetaAtKey_def Reflect_getMetadata_def method_entry_def
        handler_at_def bindE_Inr Let_def)

lemma extractMethodMetaAtKey_unbound:
  assumes "instance_obj c = Some i" and "handler_at env c n = None"
  shows "extractMethodMetaAtKey env k c (getPrototypeOf env i) n = Inl TypeError"
  using assms
  by (simp add: extractMethodMetaAtKey_def Reflect_getMetadata_def handler_at_def bindE_Inl
        Let_def)

lemma filter_truthy_meta:
  "array_filter (\<lambda>x. Inr (Bool (truthy (meta x)))) xs = Inr (filter (\<lambda>x. truthy (meta x)) xs)"
  using array_filter_total [of xs "\<lambda>x. Inr (Bool (truthy (meta x)))" "\<lambda>x. Bool (truthy (meta x))"]
  by simp

lemma classMethodsWithMetaAtKey_scannable:
  assumes "scannable env c"
  shows "classMethodsWithMetaAtKey env c k = Inr (tagged_methods env c k)"
proof -
  from assms obtain i where i: "instance_obj c = Some i"
    by (auto simp: scannable_def)
  from assms i have bound: "\<And>n. n \<in> set (methodNames env (getPrototypeOf env i))
      \<Longrightarrow> handler_at env c n \<noteq> None"
    by (simp add: scannable_def names_of_def list_all_iff)
  have s: "scanFromPrototype env (Some i) (getPrototypeOf env i)
             (\<lambda>n. extractMethodMetaAtKey env k c (getPrototypeOf env i) n)
           = Inr (scanned_methods env c k)"
    unfolding scanFromPrototype_def scanned_methods_def names_of_def i option.case
    by (rule array_map_total) (simp add: extractMethodMetaAtKey_bound [OF i] bound)
  show ?thesis
    by (simp add: classMethodsWithMetaAtKey_def Let_def i Object_getPrototypeOf_Some s
          filter_truthy_meta bindE_Inr tagged_methods_def)
qed

lemma classMethodsWithMetaAtKey_unscannable:
  assumes "\<not> scannable env c"
  shows "classMethodsWithMetaAtKey env c k = Inl TypeError"
proof (cases "instance_obj c")
  case None
  then show ?thesis
    by (simp add: classMethodsWithMetaAtKey_def Let_def Object_getPrototypeOf_None bindE_Inl)
next
  case (Some i)
  with assms obtain n where n: "n \<in> set (methodNames env (getPrototypeOf env i))"
    and unbound: "handler_at env c n = None"
    by (auto simp: scannable_def names_of_def list_all_iff)
  have "scanFromPrototype env (Some i) (getPrototypeOf env i)
          (\<lambda>n. extractMethodMetaAtKey env k c (getPrototypeOf env i) n) = Inl TypeError"
    unfolding scanFromPrototype_def
    using n extractMethodMetaAtKey_unbound [OF Some unbound] by (rule array_map_throws)
  then show ?thesis
    by (simp add: classMethodsWithMetaAtKey_def Let_def Some Object_getPrototypeOf_Some bindE_Inl
          bindE_Inr)
qed

lemma classMethodsWithMetaAtKey_total:
  "classMethodsWithMetaAtKey env c k =
     (if scannable env c then Inr (tagged_methods env c k) else Inl TypeError)"
  by (simp add: classMethodsWithMetaAtKey_scannable classMethodsWithMetaAtKey_unscannable)

lemma array_map_classMethods:
  "array_map (\<lambda>c. classMethodsWithMetaAtKey env (g c) k) cs =
     (if list_all (\<lambda>c. scannable env (g c)) cs
      then Inr (map (\<lambda>c. tagged_methods env (g c) k) cs) else Inl TypeError)"
proof (cases "list_all (\<lambda>c. scannable env (g c)) cs")
  case True
  then have "array_map (\<lambda>c. classMethodsWithMetaAtKey env (g c) k) cs
      = Inr (map (\<lambda>c. tagged_methods env (g c) k) cs)"
    by (intro array_map_total) (simp add: list_all_iff classMethodsWithMetaAtKey_scannable)
  with True show ?thesis by simp
next
  case False
  then obtain c where "c \<in> set cs" and "\<not> scannable env (g c)"
    by (auto simp: list_all_iff)
  then have "array_map (\<lambda>c. classMethodsWithMetaAtKey env (g c) k) cs = Inl TypeError"
    using classMethodsWithMetaAtKey_unscannable [of env "g c" k]
    by (intro array_map_throws [of c]) simp_all
  with False show ?thesis by simp
qed

lemma flatMapE_classMethods:
  "flatMapE (\<lambda>c. classMethodsWithMetaAtKey env (g c) k) cs =
     (if list_all (\<lambda>c. scannable env (g c)) cs
      then Inr (concat (map (\<lambda>c. tagged_methods env (g c) k) cs)) else Inl TypeError)"
  by (simp add: flatMapE_array_map array_map_classMethods bindE_Inl bindE_Inr)

lemma default_filter_None: "default_filter None = pure_filter (\<lambda>x. True)"
  by (simp add: default_filter_def pure_filter_def)

lemma default_filter_Some: "default_filter (Some f) = f"
  by (simp add: default_filter_def)

lemma controllers_pure: "controllers svc (pure_filter p) = Inr (filter p (discoveredControllers svc))"
  by (simp add: controllers_def array_filter_pure)

lemma providers_pure: "providers svc (pure_filter p) = Inr (filter p (discoveredProviders svc))"
  by (simp add: providers_def array_filter_pure)

lemma controllerMethods_pure:
  "controllerMethodsWithMetaAtKey env svc k (Some (pure_filter p)) =
     flatMapE (\<lambda>c. classMethodsWithMetaAtKey env c k) (filter p (discoveredControllers svc))"
  by (simp add: controllerMethodsWithMetaAtKey_def default_filter_Some controllers_pure bindE_Inr)

lemma controllerMethods_default:
  "controllerMethodsWithMetaAtKey env svc k None =
     flatMapE (\<lambda>c. classMethodsWithMetaAtKey env c k) (discoveredControllers svc)"
  by (simp add: controllerMethodsWithMetaAtKey_def default_filter_None controllers_pure bindE_Inr)

lemma providerMethods_pure:
  "providerMethodsWithMetaAtKey env svc k (Some (pure_filter p)) =
     flatMapE (\<lambda>c. classMethodsWithMetaAtKey env c k) (filter p (discoveredProviders svc))"
  by (simp add: providerMethodsWithMetaAtKey_def default_filter_Some providers_pure bindE_Inr)

lemma providerMethods_default:
  "providerMethodsWithMetaAtKey env svc k None =
     flatMapE (\<lambda>c. classMethodsWithMetaAtKey env c k) (discoveredProviders svc)"
  by (simp add: providerMethodsWithMetaAtKey_def default_filter_None providers_pure bindE_Inr)

lemma untyped_member:
  "\<not> list_all (\<lambda>c. classType c \<noteq> None) cs \<Longrightarrow> \<exists>c \<in> set cs. classType c = None"
  by (simp add: list_all_iff)

lemma controllersWithMetaAtKey_total:
  "controllersWithMetaAtKey env svc k =
     (if list_all (\<lambda>c. classType c \<noteq> None) (discoveredControllers svc)
      then Inr (truthy_classesWithMetaAtKey env k (discoveredControllers svc))
      else Inl TypeError)"
  using controllersWithMetaAtKey_typed [of svc env k] controllersWithMetaAtKey_untyped [of _ svc env k]
    untyped_member [of "discoveredControllers svc"]
  by auto

lemma providersWithMetaAtKey_total:
  "providersWithMetaAtKey env svc k =
     (if list_all (\<lambda>c. classType c \<noteq> None) (discoveredProviders svc)
      then Inr (truthy_classesWithMetaAtKey env k (discoveredProviders svc))
      else Inl TypeError)"
  using providersWithMetaAtKey_typed [of svc env k] providersWithMetaAtKey_untyped [of _ svc env k]
    untyped_member [of "discoveredProviders svc"]
  by auto

subsection \<open>The composite query\<close>

lemma composite_untyped:
  "c \<in> set (discoveredControllers svc) \<Longrightarrow> classType c = None \<Longrightarrow>
   methodsAndControllerMethodsWithMetaAtKey env svc k mf = Inl TypeError"
  by (simp add: methodsAndControllerMethodsWithMetaAtKey_def controllersWithMetaAtKey_untyped
        bindE_Inl)

lemma found_classes_are_controllers:
  assumes "controllersWithMetaAtKey env svc k = Inr cs" and "c \<in> set cs"
  shows "discoveredClass c \<in> set (discoveredControllers svc)"
  using assms
  by (auto simp: controllersWithMetaAtKey_total truthy_classesWithMetaAtKey_def
        with_class_meta_def split: if_splits)

lemma composite_from_classes:
  assumes flt: "default_filter mf = pure_filter p"
    and cs: "controllersWithMetaAtKey env svc k = Inr cs"
  shows "methodsAndControllerMethodsWithMetaAtKey env svc k mf =
     (if list_all (scannable env) (discoveredControllers svc)
      then Inr (uniqBy (inherited_methods env p cs @ direct_methods env svc k p) handler_of)
      else Inl TypeError)"
proof -
  have fc: "(\<lambda>x::DiscoveredClassWithMeta. default_filter mf (meta x)) = pure_filter (\<lambda>x. p (meta x))"
    by (simp add: flt pure_filter_def)
  have fm: "(\<lambda>x::DiscoveredMethodWithMeta. default_filter mf (meta x)) = pure_filter (\<lambda>x. p (meta x))"
    by (simp add: flt pure_filter_def)
  show ?thesis
  proof (cases "list_all (scannable env) (discoveredControllers svc)")
    case True
    then have sel: "list_all (\<lambda>c. scannable env (discoveredClass c)) (filter (\<lambda>x. p (meta x)) cs)"
      using found_classes_are_controllers [OF cs] by (auto simp: list_all_iff)
    from True have all: "list_all (\<lambda>c. scannable env c) (discoveredControllers svc)" .
    show ?thesis
      unfolding methodsAndControllerMethodsWithMetaAtKey_def fc fm
      by (simp add: cs True controllerMethods_default bindE_Inr array_filter_pure
            flatMapE_classMethods [of env discoveredClass] flatMapE_classMethods [of env "\<lambda>c. c"]
            sel all inherited_methods_def direct_methods_def handler_of_def [abs_def])
  next
    case False
    then have direct: "controllerMethodsWithMetaAtKey env svc k None = Inl TypeError"
      by (simp add: controllerMethods_default flatMapE_classMethods [of env "\<lambda>c. c"])
    show ?thesis
      unfolding methodsAndControllerMethodsWithMetaAtKey_def fc fm
      by (cases "flatMapE (\<lambda>controller. classMethodsWithMetaAtKey env
                    (discoveredClass controller) PATH_METADATA) (filter (\<lambda>x. p (meta x)) cs)")
        (simp_all add: cs False direct bindE_Inr bindE_Inl array_filter_pure
          error_is_TypeError [of "_::error"])
  qed
qed

lemma composite_is_uniqBy:
  "methodsAndControllerMethodsWithMetaAtKey env svc k mf = Inr r \<Longrightarrow>
   \<exists>xs. r = uniqBy xs handler_of"
  by (auto simp: methodsAndControllerMethodsWithMetaAtKey_def bindE_eq_Inr handler_of_def [abs_def])

lemma composite_total:
  assumes flt: "default_filter mf = pure_filter p"
  shows "methodsAndControllerMethodsWithMetaAtKey env svc k mf =
     (if list_all (\<lambda>c. classType c \<noteq> None) (discoveredControllers svc)
         \<and> list_all (scannable env) (discoveredControllers svc)
      then Inr (truthy_composite env svc k p) else Inl TypeError)"
proof (cases "list_all (\<lambda>c. classType c \<noteq> None) (discoveredControllers svc)")
  case True
  then have cs: "controllersWithMetaAtKey env svc k
      = Inr (truthy_classesWithMetaAtKey env k (discoveredControllers svc))"
    by (simp add: controllersWithMetaAtKey_total)
  have inh: "inherited_methods env p (truthy_classesWithMetaAtKey env k (discoveredControllers svc))
      = concat (map (\<lambda>c. tagged_methods env c PATH_METADATA)
          (filter (\<lambda>c. truthy (class_meta env k c) \<and> p (class_meta env k c))
             (discoveredControllers svc)))"
    by (simp add: inherited_methods_def truthy_classesWithMetaAtKey_def filter_map o_def
          with_class_meta_def conj_commute)
  show ?thesis
    using True
    by (simp add: composite_from_classes [OF flt cs] inh truthy_composite_def
          direct_methods_def Let_def)
next
  case False
  then obtain c where "c \<in> set (discoveredControllers svc)" and "classType c = None"
    using untyped_member by blast
  then have "methodsAndControllerMethodsWithMetaAtKey env svc k mf = Inl TypeError"
    by (rule composite_untyped)
  with False show ?thesis by auto
qed

subsection \<open>The constructor\<close>

lemma discoveredControllers_new:
  "discoveredControllers (new_DiscoveryService mc)
     = concat (map (\<lambda>(key, m). map (\<lambda>(n, w). toDiscoveredClass m w) (routes m)) mc)"
  by (induction mc) (auto simp: new_DiscoveryService_def flatMap_def Let_def)

lemma discoveredProviders_new:
  "discoveredProviders (new_DiscoveryService mc)
     = concat (map (\<lambda>(key, m). map (\<lambda>(n, w). toDiscoveredClass m w) (components m)) mc)"
  by (induction mc) (auto simp: new_DiscoveryService_def flatMap_def Let_def)

lemma length_flattened:
  "length (concat (map (\<lambda>(key, m). map (f m) (sel m)) mc))
     = sum_list (map (\<lambda>(key, m). length (sel m)) mc)"
  by (induction mc) auto

section \<open>The queries on the heap compute the queries on values\<close>

lemma refines_new_array: "refines (new_array r mk h) h (map_sum id mk r)"
  by (cases r) (simp_all add: refines_def new_array_def alloc_def)

lemma refines_bindH:
  assumes m: "refines m h v1"
    and f: "\<And>b h1 x. m = (Inr b, h1) \<Longrightarrow> cells h1 b = Some x \<Longrightarrow> v1 = Inr x
              \<Longrightarrow> refines (f b h1) h1 (g x)"
  shows "refines (bindH m f) h (case v1 of Inl e \<Rightarrow> Inl e | Inr x \<Rightarrow> g x)"
proof (cases m)
  case (Pair r h1)
  show ?thesis
  proof (cases r)
    case (Inl e)
    with Pair m show ?thesis by (auto simp: refines_def bindH_def)
  next
    case (Inr b)
    with Pair m obtain x where x: "cells h1 b = Some x" "v1 = Inr x"
      and ext: "fresh h \<le> fresh h1" "\<forall>a<fresh h. cells h1 a = cells h a"
      by (auto simp: refines_def)
    from Pair Inr have "m = (Inr b, h1)" by simp
    from f [OF this x] have "refines (f b h1) h1 (g x)" .
    with ext x Pair Inr show ?thesis
      by (auto simp: refines_def bindH_def split: prod.splits sum.splits)
  qed
qed

lemma refines_eq: "refines res h v \<Longrightarrow> v = v' \<Longrightarrow> refines res h v'"
  by simp

lemma snapshot_kept:
  assumes "controllers_ref obj < fresh h" and "providers_ref obj < fresh h"
    and "\<forall>a<fresh h. cells h' a = cells h a"
  shows "snapshot h' obj = snapshot h obj"
  using assms by (simp add: snapshot_def classes_at_def)

lemma h_providers_refines:
  "refines (h_providers obj flt h) h (map_sum id Classes (providers (snapshot h obj) flt))"
  unfolding h_providers_def h_filter_def providers_def snapshot_def
  using refines_new_array [of "array_filter flt (classes_at h (providers_ref obj))" Classes h]
  by simp

lemma h_controllers_refines:
  "refines (h_controllers obj flt h) h (map_sum id Classes (controllers (snapshot h obj) flt))"
  unfolding h_controllers_def h_filter_def controllers_def snapshot_def
  using refines_new_array [of "array_filter flt (classes_at h (controllers_ref obj))" Classes h]
  by simp

lemma h_providersWithMetaAtKey_refines:
  "refines (h_providersWithMetaAtKey env obj k h) h
     (map_sum id ClassesWithMeta (providersWithMetaAtKey env (snapshot h obj) k))"
proof -
  let ?cb = "\<lambda>x. bindE (Reflect_getMetadata env k (classType x))
                 (\<lambda>m. Inr \<lparr> meta = m, discoveredClass = x \<rparr>)"
  let ?g = "\<lambda>x. map_sum id ClassesWithMeta
                 (array_map ?cb (case x of Classes xs \<Rightarrow> xs | _ \<Rightarrow> []))"
  have "refines (h_providersWithMetaAtKey env obj k h) h
          (case map_sum id Classes (providers (snapshot h obj) (withMetaAtKey env k)) of
             Inl e \<Rightarrow> Inl e | Inr x \<Rightarrow> ?g x)"
    unfolding h_providersWithMetaAtKey_def
  proof (rule refines_bindH [OF h_providers_refines])
    fix b x and h1 :: heap
    assume "cells h1 b = Some x"
    then have "classes_at h1 b = (case x of Classes xs \<Rightarrow> xs | _ \<Rightarrow> [])"
      by (simp add: classes_at_def)
    then show "refines (h_map classes_at ClassesWithMeta ?cb b h1) h1 (?g x)"
      unfolding h_map_def using refines_new_array [of "array_map ?cb (classes_at h1 b)"] by simp
  qed
  then show ?thesis
    by (rule refines_eq)
      (cases "providers (snapshot h obj) (withMetaAtKey env k)";
        simp add: providersWithMetaAtKey_def bindE_def)
qed

lemma h_controllersWithMetaAtKey_refines:
  "refines (h_controllersWithMetaAtKey env obj k h) h
     (map_sum id ClassesWithMeta (controllersWithMetaAtKey env (snapshot h obj) k))"
proof -
  let ?cb = "\<lambda>x. bindE (Reflect_getMetadata env k (classType x))
                 (\<lambda>m. Inr \<lparr> meta = m, discoveredClass = x \<rparr>)"
  let ?g = "\<lambda>x. map_sum id ClassesWithMeta
                 (array_map ?cb (case x of Classes xs \<Rightarrow> xs | _ \<Rightarrow> []))"
  have "refines (h_controllersWithMetaAtKey env obj k h) h
          (case map_sum id Classes (controllers (snapshot h obj) (withMetaAtKey env k)) of
             Inl e \<Rightarrow> Inl e | Inr x \<Rightarrow> ?g x)"
    unfolding h_controllersWithMetaAtKey_def
  proof (rule refines_bindH [OF h_controllers_refines])
    fix b x and h1 :: heap
    assume "cells h1 b = Some x"
    then have "classes_at h1 b = (case x of Classes xs \<Rightarrow> xs | _ \<Rightarrow> [])"
      by (simp add: classes_at_def)
    then show "refines (h_map classes_at ClassesWithMeta ?cb b h1) h1 (?g x)"
      unfolding h_map_def using refines_new_array [of "array_map ?cb (classes_at h1 b)"] by simp
  qed
  then show ?thesis
    by (rule refines_eq)
      (cases "controllers (snapshot h obj) (withMetaAtKey env k)";
        simp add: controllersWithMetaAtKey_def bindE_def)
qed

lemma h_classMethodsWithMetaAtKey_refines:
  "refines (h_classMethodsWithMetaAtKey env c k h) h
     (map_sum id MethodsWithMeta (classMethodsWithMetaAtKey env c k))"
proof (cases "Object_getPrototypeOf env (instance_obj c)")
  case (Inl e)
  then show ?thesis
    by (simp add: h_classMethodsWithMetaAtKey_def classMethodsWithMetaAtKey_def Let_def
          refines_def bindE_Inl)
next
  case (Inr proto)
  let ?scan = "scanFromPrototype env (instance_obj c) proto
                 (\<lambda>n. extractMethodMetaAtKey env k c proto n)"
  let ?flt = "\<lambda>x::DiscoveredMethodWithMeta. (Inr (Bool (truthy (meta x))) :: error + jsval)"
  let ?g = "\<lambda>x. map_sum id MethodsWithMeta
                 (array_filter ?flt (case x of MethodsWithMeta xs \<Rightarrow> xs | _ \<Rightarrow> []))"
  have "refines (bindH (h_scanFromPrototype env (instance_obj c) proto
                   (\<lambda>n. extractMethodMetaAtKey env k c proto n) h)
                 (\<lambda>a h1. h_filter methods_at MethodsWithMeta ?flt a h1)) h
          (case map_sum id MethodsWithMeta ?scan of Inl e \<Rightarrow> Inl e | Inr x \<Rightarrow> ?g x)"
  proof (rule refines_bindH)
    show "refines (h_scanFromPrototype env (instance_obj c) proto
             (\<lambda>n. extractMethodMetaAtKey env k c proto n) h) h (map_sum id MethodsWithMeta ?scan)"
      unfolding h_scanFromPrototype_def by (rule refines_new_array)
  next
    fix b x and h1 :: heap
    assume "cells h1 b = Some x"
    then have "methods_at h1 b = (case x of MethodsWithMeta xs \<Rightarrow> xs | _ \<Rightarrow> [])"
      by (simp add: methods_at_def)
    then show "refines (h_filter methods_at MethodsWithMeta ?flt b h1) h1 (?g x)"
      unfolding h_filter_def using refines_new_array [of "array_filter ?flt (methods_at h1 b)"]
      by simp
  qed
  then show ?thesis
    unfolding h_classMethodsWithMetaAtKey_def classMethodsWithMetaAtKey_def Let_def Inr
    by (simp add: bindE_Inr) (rule refines_eq, assumption, cases ?scan; simp add: bindE_def)
qed

lemma h_collect_refines:
  assumes cb: "\<And>x h. refines (cb x h) h (map_sum id MethodsWithMeta (pcb x))"
    and run: "h_collect cb xs h = (r, h')"
  shows "fresh h \<le> fresh h' \<and> (\<forall>a<fresh h. cells h' a = cells h a)
     \<and> (case r of
           Inl e \<Rightarrow> array_map pcb xs = Inl e
         | Inr as \<Rightarrow> array_map pcb xs = Inr (map (methods_at h') as)
                      \<and> list_all (\<lambda>a. a < fresh h') as)"
  using run
proof (induction xs arbitrary: h r h')
  case Nil
  then show ?case by auto
next
  case (Cons x xs)
  obtain r1 h1 where step: "cb x h = (r1, h1)" by (cases "cb x h")
  show ?case
  proof (cases r1)
    case (Inl e)
    with step cb [of x h] have "pcb x = Inl e" and "fresh h \<le> fresh h1"
      and "\<forall>a<fresh h. cells h1 a = cells h a"
      by (cases "pcb x"; auto simp: refines_def)+
    with step Inl Cons.prems show ?thesis
      by (auto simp: bindH_def bindE_Inl)
  next
    case (Inr a)
    with step cb [of x h] obtain ys where ys: "cells h1 a = Some (MethodsWithMeta ys)"
      "pcb x = Inr ys" and a: "a < fresh h1"
      and ext: "fresh h \<le> fresh h1" "\<forall>b<fresh h. cells h1 b = cells h b"
      by (cases "pcb x") (auto simp: refines_def)
    obtain r2 h2 where rest: "h_collect cb xs h1 = (r2, h2)" by (cases "h_collect cb xs h1")
    from Cons.IH [OF rest]
    have ext2: "fresh h1 \<le> fresh h2" "\<forall>b<fresh h1. cells h2 b = cells h1 b"
      and res: "case r2 of Inl e \<Rightarrow> array_map pcb xs = Inl e
                | Inr as \<Rightarrow> array_map pcb xs = Inr (map (methods_at h2) as)
                             \<and> list_all (\<lambda>a. a < fresh h2) as"
      by simp_all
    from ext2 a ys have read: "methods_at h2 a = ys"
      by (simp add: methods_at_def)
    show ?thesis
    proof (cases r2)
      case (Inl e)
      with step \<open>r1 = Inr a\<close> rest res ext ext2 ys Cons.prems show ?thesis
        by (auto simp: bindH_def bindE_Inl bindE_Inr)
    next
      case (Inr as)
      with step \<open>r1 = Inr a\<close> rest res ext ext2 ys read a Cons.prems show ?thesis
        by (auto simp: bindH_def bindE_Inr)
    qed
  qed
qed

lemma h_flatMap_refines:
  assumes cb: "\<And>x h. refines (cb x h) h (map_sum id MethodsWithMeta (pcb x))"
  shows "refines (h_flatMap rd cb a h) h (map_sum id MethodsWithMeta (flatMapE pcb (rd h a)))"
proof -
  obtain r h1 where c: "h_collect cb (rd h a) h = (r, h1)" by (cases "h_collect cb (rd h a) h")
  from h_collect_refines [of cb pcb "rd h a" h r h1, OF cb c]
  have ext: "fresh h \<le> fresh h1" "\<forall>b<fresh h. cells h1 b = cells h b"
    and res: "case r of Inl e \<Rightarrow> array_map pcb (rd h a) = Inl e
              | Inr as \<Rightarrow> array_map pcb (rd h a) = Inr (map (methods_at h1) as)
                           \<and> list_all (\<lambda>a. a < fresh h1) as"
    by simp_all
  show ?thesis
  proof (cases r)
    case (Inl e)
    with c ext res show ?thesis
      by (simp add: h_flatMap_def bindH_def refines_def flatMapE_array_map bindE_Inl)
  next
    case (Inr as)
    with c ext res show ?thesis
      by (simp add: h_flatMap_def bindH_def refines_def flatMapE_array_map bindE_Inr
            new_array_def alloc_def)
  qed
qed

lemma h_providerMethodsWithMetaAtKey_refines:
  "refines (h_providerMethodsWithMetaAtKey env obj k pf h) h
     (map_sum id MethodsWithMeta (providerMethodsWithMetaAtKey env (snapshot h obj) k pf))"
proof -
  let ?pcb = "\<lambda>c. classMethodsWithMetaAtKey env c k"
  let ?g = "\<lambda>x. map_sum id MethodsWithMeta
                 (flatMapE ?pcb (case x of Classes xs \<Rightarrow> xs | _ \<Rightarrow> []))"
  have "refines (h_providerMethodsWithMetaAtKey env obj k pf h) h
          (case map_sum id Classes (providers (snapshot h obj) (default_filter pf)) of
             Inl e \<Rightarrow> Inl e | Inr x \<Rightarrow> ?g x)"
    unfolding h_providerMethodsWithMetaAtKey_def
  proof (rule refines_bindH [OF h_providers_refines])
    fix b x and h1 :: heap
    assume "cells h1 b = Some x"
    then have "classes_at h1 b = (case x of Classes xs \<Rightarrow> xs | _ \<Rightarrow> [])"
      by (simp add: classes_at_def)
    then show "refines (h_flatMap classes_at
        (\<lambda>provider. h_classMethodsWithMetaAtKey env provider k) b h1) h1 (?g x)"
      using h_flatMap_refines [of "\<lambda>provider. h_classMethodsWithMetaAtKey env provider k" ?pcb
          classes_at b h1, OF h_classMethodsWithMetaAtKey_refines]
      by simp
  qed
  then show ?thesis
    by (rule refines_eq)
      (cases "providers (snapshot h obj) (default_filter pf)";
        simp add: providerMethodsWithMetaAtKey_def bindE_def)
qed

lemma h_controllerMethodsWithMetaAtKey_refines:
  "refines (h_controllerMethodsWithMetaAtKey env obj k cf h) h
     (map_sum id MethodsWithMeta (controllerMethodsWithMetaAtKey env (snapshot h obj) k cf))"
proof -
  let ?pcb = "\<lambda>c. classMethodsWithMetaAtKey env c k"
  let ?g = "\<lambda>x. map_sum id MethodsWithMeta
                 (flatMapE ?pcb (case x of Classes xs \<Rightarrow> xs | _ \<Rightarrow> []))"
  have "refines (h_controllerMethodsWithMetaAtKey env obj k cf h) h
          (case map_sum id Classes (controllers (snapshot h obj) (default_filter cf)) of
             Inl e \<Rightarrow> Inl e | Inr x \<Rightarrow> ?g x)"
    unfolding h_controllerMethodsWithMetaAtKey_def
  proof (rule refines_bindH [OF h_controllers_refines])
    fix b x and h1 :: heap
    assume "cells h1 b = Some x"
    then have "classes_at h1 b = (case x of Classes xs \<Rightarrow> xs | _ \<Rightarrow> [])"
      by (simp add: classes_at_def)
    then show "refines (h_flatMap classes_at
        (\<lambda>controller. h_classMethodsWithMetaAtKey env controller k) b h1) h1 (?g x)"
      using h_flatMap_refines [of "\<lambda>controller. h_classMethodsWithMetaAtKey env controller k" ?pcb
          classes_at b h1, OF h_classMethodsWithMetaAtKey_refines]
      by simp
  qed
  then show ?thesis
    by (rule refines_eq)
      (cases "controllers (snapshot h obj) (default_filter cf)";
        simp add: controllerMethodsWithMetaAtKey_def bindE_def)
qed

lemma refines_cases:
  assumes "refines res h v"
  obtains (throw) e h' where "res = (Inl e, h')" and "v = Inl e"
      and "fresh h \<le> fresh h'" and "\<forall>a<fresh h. cells h' a = cells h a"
    | (ret) b h' x where "res = (Inr b, h')" and "v = Inr x" and "cells h' b = Some x"
      and "b < fresh h'" and "fresh h \<le> fresh h'" and "\<forall>a<fresh h. cells h' a = cells h a"
proof (cases res)
  case (Pair r h')
  show ?thesis
  proof (cases r)
    case (Inl e)
    with Pair assms throw [of e h'] show ?thesis by (auto simp: refines_def)
  next
    case (Inr b)
    with Pair assms ret [of b h'] show ?thesis by (auto simp: refines_def)
  qed
qed

lemma refines_then_filter:
  assumes m: "refines m h (map_sum id mk v)"
    and rd: "\<And>h b xs. cells h b = Some (mk xs) \<Longrightarrow> rd h b = xs"
  shows "refines (bindH m (h_filter rd mk cb)) h (map_sum id mk (bindE v (array_filter cb)))"
  using m
proof (cases rule: refines_cases)
  case (throw e h')
  then show ?thesis
    by (cases v) (auto simp: refines_def bindH_def bindE_Inl)
next
  case (ret b h' x)
  then obtain xs where xs: "v = Inr xs" "x = mk xs" by (cases v) auto
  with ret rd [of h' b xs] have "rd h' b = xs" by simp
  with refines_new_array [of "array_filter cb xs" mk h'] ret xs show ?thesis
    by (auto simp: refines_def bindH_def bindE_Inr h_filter_def split: prod.splits sum.splits)
qed

lemma h_composite_refines:
  assumes allocated: "controllers_ref obj < fresh h" "providers_ref obj < fresh h"
  shows "refines (h_methodsAndControllerMethodsWithMetaAtKey env obj k mf h) h
     (map_sum id MethodsWithMeta
        (methodsAndControllerMethodsWithMetaAtKey env (snapshot h obj) k mf))"
proof -
  let ?svc = "snapshot h obj"
  let ?fc = "\<lambda>x::DiscoveredClassWithMeta. default_filter mf (meta x)"
  let ?fm = "\<lambda>x::DiscoveredMethodWithMeta. default_filter mf (meta x)"
  let ?path = "\<lambda>c. classMethodsWithMetaAtKey env (discoveredClass c) PATH_METADATA"
  let ?hpath = "\<lambda>c. h_classMethodsWithMetaAtKey env (discoveredClass c) PATH_METADATA"
  let ?it = "\<lambda>x::DiscoveredMethodWithMeta. handler (discoveredMethod x)"
  let ?v1 = "bindE (controllersWithMetaAtKey env ?svc k) (array_filter ?fc)"
  let ?v3 = "bindE (controllerMethodsWithMetaAtKey env ?svc k None) (array_filter ?fm)"
  have pure_q: "methodsAndControllerMethodsWithMetaAtKey env ?svc k mf =
      bindE ?v1 (\<lambda>cwm. bindE (flatMapE ?path cwm) (\<lambda>ms1. bindE ?v3 (\<lambda>ms2.
        Inr (uniqBy (ms1 @ ms2) ?it))))"
    by (simp add: methodsAndControllerMethodsWithMetaAtKey_def)
  have heap_q: "h_methodsAndControllerMethodsWithMetaAtKey env obj k mf h =
      bindH (bindH (h_controllersWithMetaAtKey env obj k h)
               (h_filter classes_with_meta_at ClassesWithMeta ?fc))
        (\<lambda>cwm h1. bindH (h_flatMap classes_with_meta_at ?hpath cwm h1)
        (\<lambda>a1 h2. bindH (bindH (h_controllerMethodsWithMetaAtKey env obj k None h2)
               (h_filter methods_at MethodsWithMeta ?fm))
        (\<lambda>a2 h3. bindH (h_spread a1 a2 h3) (\<lambda>both h4. h_uniqBy both ?it h4))))"
    by (simp add: h_methodsAndControllerMethodsWithMetaAtKey_def)
  have step1: "refines (bindH (h_controllersWithMetaAtKey env obj k h)
                 (h_filter classes_with_meta_at ClassesWithMeta ?fc)) h
                 (map_sum id ClassesWithMeta ?v1)"
    by (rule refines_then_filter [OF h_controllersWithMetaAtKey_refines])
      (simp add: classes_with_meta_at_def)
  from step1 show ?thesis
  proof (cases rule: refines_cases)
    case (throw e h1)
    then have "?v1 = Inl e" by (cases ?v1) auto
    with throw show ?thesis
      by (simp add: heap_q pure_q bindH_def bindE_Inl refines_def)
  next
    case one: (ret b1 h1 x1)
    then obtain cwm where cwm: "?v1 = Inr cwm" "x1 = ClassesWithMeta cwm" by (cases ?v1) auto
    with one have read1: "classes_with_meta_at h1 b1 = cwm"
      by (simp add: classes_with_meta_at_def)
    have step2: "refines (h_flatMap classes_with_meta_at ?hpath b1 h1) h1
        (map_sum id MethodsWithMeta (flatMapE ?path (classes_with_meta_at h1 b1)))"
      by (rule h_flatMap_refines) (rule h_classMethodsWithMetaAtKey_refines)
    from step2 show ?thesis
    proof (cases rule: refines_cases)
      case (throw e h2)
      then have "flatMapE ?path cwm = Inl e"
        using read1 by (cases "flatMapE ?path cwm") auto
      with throw one cwm show ?thesis
        by (simp add: heap_q pure_q bindH_def bindE_Inl bindE_Inr refines_def)
    next
      case two: (ret b2 h2 x2)
      then obtain ms1 where ms1: "flatMapE ?path cwm = Inr ms1" "x2 = MethodsWithMeta ms1"
        using read1 by (cases "flatMapE ?path cwm") auto
      from one two have ext2: "fresh h \<le> fresh h2" "\<forall>a<fresh h. cells h2 a = cells h a"
        by auto
      with allocated have alloc2: "controllers_ref obj < fresh h2" "providers_ref obj < fresh h2"
        and same2: "snapshot h2 obj = ?svc"
        using snapshot_kept [of obj h h2] by auto
      have step3: "refines (bindH (h_controllerMethodsWithMetaAtKey env obj k None h2)
                     (h_filter methods_at MethodsWithMeta ?fm)) h2
                     (map_sum id MethodsWithMeta ?v3)"
        using refines_then_filter [OF h_controllerMethodsWithMetaAtKey_refines
            [of env obj k None h2], of methods_at ?fm]
        by (simp add: same2 methods_at_def)
      from step3 show ?thesis
      proof (cases rule: refines_cases)
        case (throw e h3)
        then have "?v3 = Inl e" by (cases ?v3) auto
        with throw one two cwm ms1 ext2 show ?thesis
          by (simp add: heap_q pure_q bindH_def bindE_Inl bindE_Inr refines_def)
      next
        case three: (ret b3 h3 x3)
        then obtain ms2 where ms2: "?v3 = Inr ms2" "x3 = MethodsWithMeta ms2"
          by (cases ?v3) auto
        from two three ms1 have read2: "methods_at h3 b2 = ms1"
          by (simp add: methods_at_def)
        from three ms2 have read3: "methods_at h3 b3 = ms2"
          by (simp add: methods_at_def)
        from ext2 three have ext3: "fresh h \<le> fresh h3" "\<forall>a<fresh h. cells h3 a = cells h a"
          by auto
        from one two three cwm ms1 ms2 read2 read3 ext3 show ?thesis
          by (simp add: heap_q pure_q bindH_def bindE_Inr refines_def h_spread_def h_uniqBy_def
                new_array_def alloc_def methods_at_def)
      qed
    qed
  qed
qed

lemma h_call_refines:
  assumes "controllers_ref obj < fresh h" and "providers_ref obj < fresh h"
  shows "refines (h_call env q obj h) h (value_of env q (snapshot h obj))"
  using assms
  by (cases q)
    (simp_all add: h_providers_refines h_controllers_refines h_providersWithMetaAtKey_refines
      h_controllersWithMetaAtKey_refines h_classMethodsWithMetaAtKey_refines
      h_providerMethodsWithMetaAtKey_refines h_controllerMethodsWithMetaAtKey_refines
      h_composite_refines)

lemma h_call_outcome:
  assumes "controllers_ref obj < fresh h" and "providers_ref obj < fresh h"
  shows "result_at (snd (h_call env q obj h)) (fst (h_call env q obj h))
           = map_sum id Some (value_of env q (snapshot h obj))
     \<and> fresh h \<le> fresh (snd (h_call env q obj h))
     \<and> (\<forall>a<fresh h. cells (snd (h_call env q obj h)) a = cells h a)"
  using h_call_refines [OF assms, of env q]
  by (cases rule: refines_cases) (auto simp: result_at_def)

lemma h_new_DiscoveryService_allocates:
  assumes "h_new_DiscoveryService mc h0 = (obj, h)"
  shows "controllers_ref obj < fresh h \<and> providers_ref obj < fresh h
     \<and> snapshot h obj = new_DiscoveryService mc
     \<and> (\<forall>a<fresh h0. cells h a = cells h0 a)"
  using assms
  by (auto simp: h_new_DiscoveryService_def alloc_def snapshot_def classes_at_def
        new_DiscoveryService_def Let_def)

section \<open>The sample application, evaluated\<close>

lemma sample_env_fields:
  "getPrototypeOf sample_env i = i + 100"
  "methodNames sample_env 130 = [''list'', ''helper'']"
  "methodNames sample_env 131 = [''find'']"
  "methodNames sample_env 132 = [''ping'']"
  "methodNames sample_env 140 = []"
  "methodNames sample_env 141 = []"
  "property sample_env 130 ''list'' = Some 200"
  "property sample_env 130 ''helper'' = Some 201"
  "property sample_env 131 ''find'' = Some 202"
  "property sample_env 132 ''ping'' = Some 203"
  by (simp_all add: sample_env_def)

lemma sample_metadata:
  "metadata sample_env ''roles'' 10 = Some (Str ''admin'')"
  "metadata sample_env ''roles'' 11 = None"
  "metadata sample_env ''roles'' 12 = Some (Num 0)"
  "metadata sample_env ''roles'' 20 = Some (Str ''svc'')"
  "metadata sample_env ''path'' 200 = Some (Str ''/list'')"
  "metadata sample_env ''roles'' 200 = Some (Str ''user'')"
  "metadata sample_env ''path'' 201 = None"
  "metadata sample_env ''roles'' 201 = None"
  "metadata sample_env ''path'' 202 = Some (Str ''/find'')"
  "metadata sample_env ''roles'' 202 = Some (Str ''guest'')"
  "metadata sample_env ''path'' 203 = Some (Str ''/ping'')"
  "metadata sample_env ''roles'' 203 = None"
  by (simp_all add: sample_env_def)

lemma sample_module_fields:
  "routes sample_module = [(''AdminController'', admin_wrapper), (''PlainController'', plain_wrapper)]"
  "components sample_module = [(''RoleService'', service_wrapper)]"
  "routes zero_module = [(''ZeroController'', zero_wrapper)]"
  "components zero_module = [(''RoleService'', service_wrapper)]"
  "routes value_module = [(''AdminController'', admin_wrapper), (''PlainController'', plain_wrapper)]"
  "components value_module = [(''RoleService'', service_wrapper), (''CONFIG'', value_wrapper)]"
  "routes null_module = [(''AdminController'', admin_wrapper), (''PlainController'', plain_wrapper)]"
  "components null_module = [(''RoleService'', service_wrapper), (''EMPTY'', null_wrapper)]"
  by (simp_all add: sample_module_def zero_module_def value_module_def null_module_def)

lemma sample_records:
  "toDiscoveredClass sample_module admin_wrapper = admin_class"
  "toDiscoveredClass sample_module plain_wrapper = plain_class"
  "toDiscoveredClass sample_module service_wrapper = service_class"
  "toDiscoveredClass zero_module zero_wrapper = zero_class"
  "toDiscoveredClass zero_module service_wrapper = service_class"
  "toDiscoveredClass value_module admin_wrapper = admin_class"
  "toDiscoveredClass value_module plain_wrapper = plain_class"
  "toDiscoveredClass value_module service_wrapper = service_class"
  "toDiscoveredClass value_module value_wrapper = value_class"
  "toDiscoveredClass null_module admin_wrapper = admin_class"
  "toDiscoveredClass null_module plain_wrapper = plain_class"
  "toDiscoveredClass null_module service_wrapper = service_class"
  "toDiscoveredClass null_module null_wrapper = null_class"
  by (simp_all add: toDiscoveredClass_def sample_module_def zero_module_def value_module_def
        null_module_def admin_wrapper_def plain_wrapper_def zero_wrapper_def service_wrapper_def
        value_wrapper_def null_wrapper_def admin_class_def plain_class_def zero_class_def
        service_class_def value_class_def null_class_def app_module_def)

lemma sample_classes:
  "instance_obj admin_class = Some 30" "classType admin_class = Some 10"
  "instance_obj plain_class = Some 31" "classType plain_class = Some 11"
  "instance_obj zero_class = Some 32" "classType zero_class = Some 12"
  "instance_obj service_class = Some 40" "classType service_class = Some 20"
  "instance_obj value_class = Some 41" "classType value_class = None"
  "instance_obj null_class = None" "classType null_class = None"
  "name admin_class = ''AdminController''" "name plain_class = ''PlainController''"
  "name service_class = ''RoleService''" "name value_class = ''CONFIG''"
  "name null_class = ''EMPTY''" "name zero_class = ''ZeroController''"
  by (simp_all add: admin_class_def plain_class_def zero_class_def service_class_def
        value_class_def null_class_def)

lemma sample_lists:
  "discoveredControllers sample_service = [admin_class, plain_class]"
  "discoveredProviders sample_service = [service_class]"
  "discoveredControllers zero_service = [zero_class]"
  "discoveredProviders zero_service = [service_class]"
  "discoveredControllers value_service = [admin_class, plain_class]"
  "discoveredProviders value_service = [service_class, value_class]"
  "discoveredControllers null_service = [admin_class, plain_class]"
  "discoveredProviders null_service = [service_class, null_class]"
  by (simp_all add: sample_service_def zero_service_def value_service_def null_service_def
        new_DiscoveryService_def flatMap_def sample_module_fields sample_records)

lemma sample_names:
  "names_of sample_env admin_class = [''list'', ''helper'']"
  "names_of sample_env plain_class = [''find'']"
  "names_of sample_env zero_class = [''ping'']"
  "names_of sample_env service_class = []"
  "names_of sample_env value_class = []"
  "names_of sample_env null_class = []"
  by (simp_all add: names_of_def sample_classes sample_env_fields)

lemma sample_handlers:
  "handler_at sample_env admin_class ''list'' = Some 200"
  "handler_at sample_env admin_class ''helper'' = Some 201"
  "handler_at sample_env plain_class ''find'' = Some 202"
  "handler_at sample_env zero_class ''ping'' = Some 203"
  by (simp_all add: handler_at_def sample_classes sample_env_fields)

lemma sample_scannable:
  "scannable sample_env admin_class" "scannable sample_env plain_class"
  "scannable sample_env zero_class" "scannable sample_env service_class"
  "scannable sample_env value_class" "\<not> scannable sample_env null_class"
  by (simp_all add: scannable_def sample_names sample_handlers sample_classes)

lemma sample_entries:
  "method_entry sample_env ''path'' admin_class ''list'' = list_method (Str ''/list'')"
  "method_entry sample_env ''path'' admin_class ''helper''
     = \<lparr> meta = Undefined, discoveredMethod =
           \<lparr> handler = Some 201, methodName = ''helper'', parentClass = admin_class \<rparr> \<rparr>"
  "method_entry sample_env ''roles'' admin_class ''list'' = list_method (Str ''user'')"
  "method_entry sample_env ''roles'' admin_class ''helper''
     = \<lparr> meta = Undefined, discoveredMethod =
           \<lparr> handler = Some 201, methodName = ''helper'', parentClass = admin_class \<rparr> \<rparr>"
  "method_entry sample_env ''path'' plain_class ''find'' = find_method (Str ''/find'')"
  "method_entry sample_env ''roles'' plain_class ''find'' = find_method (Str ''guest'')"
  "method_entry sample_env ''path'' zero_class ''ping'' = ping_method (Str ''/ping'')"
  "method_entry sample_env ''roles'' zero_class ''ping'' = ping_method Undefined"
  by (simp_all add: method_entry_def sample_handlers OrdinaryGetMetadata_def sample_metadata
        list_method_def find_method_def ping_method_def)

lemma sample_method_fields:
  "meta (list_method m) = m" "meta (find_method m) = m" "meta (ping_method m) = m"
  "handler_of (list_method m) = Some 200" "handler_of (find_method m) = Some 202"
  "handler_of (ping_method m) = Some 203"
  by (simp_all add: list_method_def find_method_def ping_method_def handler_of_def)

lemma sample_tagged:
  "tagged_methods sample_env admin_class ''path'' = [list_method (Str ''/list'')]"
  "tagged_methods sample_env admin_class ''roles'' = [list_method (Str ''user'')]"
  "tagged_methods sample_env plain_class ''path'' = [find_method (Str ''/find'')]"
  "tagged_methods sample_env plain_class ''roles'' = [find_method (Str ''guest'')]"
  "tagged_methods sample_env zero_class ''path'' = [ping_method (Str ''/ping'')]"
  "tagged_methods sample_env zero_class ''roles'' = []"
  "tagged_methods sample_env service_class k = []"
  "tagged_methods sample_env value_class k = []"
  by (simp_all add: tagged_methods_def scanned_methods_def sample_names sample_entries
        sample_method_fields)

lemma sample_class_meta:
  "class_meta sample_env ''roles'' admin_class = Str ''admin''"
  "class_meta sample_env ''roles'' plain_class = Undefined"
  "class_meta sample_env ''roles'' zero_class = Num 0"
  "class_meta sample_env ''roles'' service_class = Str ''svc''"
  by (simp_all add: class_meta_def sample_classes OrdinaryGetMetadata_def sample_metadata)

lemma sample_class_level:
  "controllersWithMetaAtKey sample_env sample_service ''roles''
     = Inr [with_class_meta sample_env ''roles'' admin_class]"
  "providersWithMetaAtKey sample_env sample_service ''roles''
     = Inr [with_class_meta sample_env ''roles'' service_class]"
  "controllersWithMetaAtKey sample_env zero_service ''roles'' = Inr []"
  by (simp_all add: controllersWithMetaAtKey_total providersWithMetaAtKey_total sample_lists
        sample_classes truthy_classesWithMetaAtKey_def sample_class_meta)

lemma sample_inherited:
  "inherited_methods sample_env (\<lambda>m. True) [with_class_meta sample_env ''roles'' admin_class]
     = [list_method (Str ''/list'')]"
  "inherited_methods sample_env (\<lambda>m. m = Str ''guest'')
       [with_class_meta sample_env ''roles'' admin_class] = []"
  by (simp_all add: inherited_methods_def with_class_meta_def sample_tagged PATH_METADATA_def
        sample_class_meta)

lemma sample_direct:
  "direct_methods sample_env sample_service ''roles'' (\<lambda>m. True)
     = [list_method (Str ''user''), find_method (Str ''guest'')]"
  "direct_methods sample_env sample_service ''roles'' (\<lambda>m. m = Str ''guest'')
     = [find_method (Str ''guest'')]"
  by (simp_all add: direct_methods_def sample_lists sample_tagged sample_method_fields)

lemma sample_heap_facts:
  "controllers_ref sample_object = 0" "providers_ref sample_object = 1"
  "fresh sample_heap = 2" "snapshot sample_heap sample_object = sample_service"
  by (simp_all add: sample_object_def sample_heap_def h_new_DiscoveryService_def alloc_def
        empty_heap_def snapshot_def classes_at_def sample_service_def new_DiscoveryService_def)

section \<open>The claims\<close>

text \<open>
  Claim C1, as stated: the composite query equals the composition whose first step takes the
  controllers carrying metadata at the key at the class level. This fails for a controller
  whose value at the key is falsy: the class of \<open>ZeroController\<close> carries the number 0 at
  \<open>''roles''\<close> and its method \<open>ping\<close> is a route handler, so the composition yields
  \<open>ping\<close>, and the query returns nothing.
\<close>

theorem composite_presence_counterexample:
  "discoveredControllers zero_service = [zero_class]
   \<and> hasMetadata sample_env ''roles'' (classType zero_class)
   \<and> tagged_methods sample_env zero_class PATH_METADATA = [ping_method (Str ''/ping'')]
   \<and> spec_composite sample_env zero_service ''roles'' (\<lambda>m. True) = [ping_method (Str ''/ping'')]
   \<and> methodsAndControllerMethodsWithMetaAtKey sample_env zero_service ''roles'' None = Inr []
   \<and> methodsAndControllerMethodsWithMetaAtKey sample_env zero_service ''roles'' None
       \<noteq> Inr (spec_composite sample_env zero_service ''roles'' (\<lambda>m. True))"
proof -
  have of_code: "methodsAndControllerMethodsWithMetaAtKey sample_env zero_service ''roles'' None
      = Inr []"
    using composite_total [of None "\<lambda>m. True" sample_env zero_service "''roles''"]
    by (simp add: default_filter_None sample_lists sample_classes sample_scannable
          truthy_composite_def sample_class_meta sample_tagged uniqBy_def)
  have of_spec: "spec_composite sample_env zero_service ''roles'' (\<lambda>m. True)
      = [ping_method (Str ''/ping'')]"
    by (simp add: spec_composite_def sample_lists sample_classes hasMetadata_def sample_metadata
          sample_tagged PATH_METADATA_def uniqBy_def sample_method_fields)
  show ?thesis
    by (simp add: of_code of_spec sample_lists sample_classes hasMetadata_def sample_metadata
          sample_tagged PATH_METADATA_def)
qed

text \<open>
  Claim C1, amended. For every key and every filter on meta values (also the default,
  always-true one), when every discovered controller has a type reference and can be
  scanned, \<^verbatim>\<open>methodsAndControllerMethodsWithMetaAtKey\<close> returns the composition whose first
  step takes the controllers whose class-level value at the key is truthy and passes the
  filter; the other steps are as stated: for each such controller its methods carrying the
  route-path key, independently the methods of all controllers carrying the key itself whose
  meta passes the filter, and the union by handler of the first list followed by the second.
  Otherwise the query throws a \<^verbatim>\<open>TypeError\<close>.
\<close>

theorem composite_truthy:
  "methodsAndControllerMethodsWithMetaAtKey env svc metaKey (Some (pure_filter metaFilter))
     = (if list_all (\<lambda>c. classType c \<noteq> None) (discoveredControllers svc)
           \<and> list_all (scannable env) (discoveredControllers svc)
        then Inr (uniqBy
               (concat (map (\<lambda>c. tagged_methods env c PATH_METADATA)
                  (filter (\<lambda>c. truthy (class_meta env metaKey c) \<and> metaFilter (class_meta env metaKey c))
                     (discoveredControllers svc)))
                @ filter (\<lambda>m. metaFilter (meta m))
                    (concat (map (\<lambda>c. tagged_methods env c metaKey) (discoveredControllers svc))))
               handler_of)
        else Inl TypeError)
   \<and> methodsAndControllerMethodsWithMetaAtKey env svc metaKey None
     = (if list_all (\<lambda>c. classType c \<noteq> None) (discoveredControllers svc)
           \<and> list_all (scannable env) (discoveredControllers svc)
        then Inr (uniqBy
               (concat (map (\<lambda>c. tagged_methods env c PATH_METADATA)
                  (filter (\<lambda>c. truthy (class_meta env metaKey c)) (discoveredControllers svc)))
                @ concat (map (\<lambda>c. tagged_methods env c metaKey) (discoveredControllers svc)))
               handler_of)
        else Inl TypeError)"
  using composite_total [of "Some (pure_filter metaFilter)" metaFilter env svc metaKey]
    composite_total [of None "\<lambda>m. True" env svc metaKey]
  by (simp add: default_filter_Some default_filter_None truthy_composite_def Let_def)

theorem composite_truthy_witness:
  "list_all (\<lambda>c. classType c \<noteq> None) (discoveredControllers sample_service)
   \<and> list_all (scannable sample_env) (discoveredControllers sample_service)
   \<and> methodsAndControllerMethodsWithMetaAtKey sample_env sample_service ''roles'' None
     = Inr [list_method (Str ''/list''), find_method (Str ''guest'')]
   \<and> methodsAndControllerMethodsWithMetaAtKey sample_env sample_service ''roles''
        (Some (pure_filter (\<lambda>m. m = Str ''guest'')))
     = Inr [find_method (Str ''guest'')]"
  using composite_truthy [of sample_env sample_service "''roles''" "\<lambda>m. m = Str ''guest''"]
  by (simp add: sample_lists sample_classes sample_scannable sample_class_meta sample_tagged
        PATH_METADATA_def sample_method_fields uniqBy_def)

text \<open>
  Claim C2. Whatever the key and the filter, a result of
  \<^verbatim>\<open>methodsAndControllerMethodsWithMetaAtKey\<close> never holds two entries with the same handler.
  With a boolean filter the result is the class-inherited matches without repetitions,
  followed by those directly tagged matches whose handler is not among the class-inherited
  ones; it keeps the order of the concatenation of the two lists, and every entry of the
  result is the first entry with its handler in that concatenation. The query returns this
  result exactly when every controller can be scanned.
\<close>

theorem composite_no_duplicate_handlers:
  "(\<forall>r. methodsAndControllerMethodsWithMetaAtKey env svc metaKey mf = Inr r
        \<longrightarrow> distinct (map handler_of r))
   \<and> (\<forall>cs p. controllersWithMetaAtKey env svc metaKey = Inr cs \<and> default_filter mf = pure_filter p
          \<and> list_all (scannable env) (discoveredControllers svc)
        \<longrightarrow> (\<exists>r. methodsAndControllerMethodsWithMetaAtKey env svc metaKey mf = Inr r
              \<and> r = uniqBy (inherited_methods env p cs) handler_of
                     @ filter (\<lambda>y. handler_of y \<notin> handler_of ` set (inherited_methods env p cs))
                         (uniqBy (direct_methods env svc metaKey p) handler_of)
              \<and> subseq r (inherited_methods env p cs @ direct_methods env svc metaKey p)
              \<and> (\<forall>x \<in> set r. find (\<lambda>y. handler_of y = handler_of x)
                     (inherited_methods env p cs @ direct_methods env svc metaKey p) = Some x)))
   \<and> (\<forall>cs p r. controllersWithMetaAtKey env svc metaKey = Inr cs
          \<and> default_filter mf = pure_filter p
          \<and> methodsAndControllerMethodsWithMetaAtKey env svc metaKey mf = Inr r
        \<longrightarrow> list_all (scannable env) (discoveredControllers svc))"
proof (intro conjI allI impI)
  fix r
  assume "methodsAndControllerMethodsWithMetaAtKey env svc metaKey mf = Inr r"
  then obtain xs where "r = uniqBy xs handler_of"
    using composite_is_uniqBy by blast
  then show "distinct (map handler_of r)"
    by (simp add: uniqBy_distinct)
next
  fix cs p
  assume a: "controllersWithMetaAtKey env svc metaKey = Inr cs \<and> default_filter mf = pure_filter p
     \<and> list_all (scannable env) (discoveredControllers svc)"
  let ?A = "inherited_methods env p cs" and ?B = "direct_methods env svc metaKey p"
  from a have res: "methodsAndControllerMethodsWithMetaAtKey env svc metaKey mf
      = Inr (uniqBy (?A @ ?B) handler_of)"
    by (simp add: composite_from_classes [of mf p env svc metaKey cs])
  have first: "\<forall>x \<in> set (uniqBy (?A @ ?B) handler_of).
      find (\<lambda>y. handler_of y = handler_of x) (?A @ ?B) = Some x"
    using uniqBy_first [of _ "?A @ ?B" handler_of] by blast
  show "\<exists>r. methodsAndControllerMethodsWithMetaAtKey env svc metaKey mf = Inr r
              \<and> r = uniqBy ?A handler_of
                     @ filter (\<lambda>y. handler_of y \<notin> handler_of ` set ?A) (uniqBy ?B handler_of)
              \<and> subseq r (?A @ ?B)
              \<and> (\<forall>x \<in> set r. find (\<lambda>y. handler_of y = handler_of x) (?A @ ?B) = Some x)"
    using res first uniqBy_append [of ?A ?B handler_of] uniqBy_subseq [of "?A @ ?B" handler_of]
    by simp
next
  fix cs p r
  assume a: "controllersWithMetaAtKey env svc metaKey = Inr cs \<and> default_filter mf = pure_filter p
     \<and> methodsAndControllerMethodsWithMetaAtKey env svc metaKey mf = Inr r"
  then show "list_all (scannable env) (discoveredControllers svc)"
    using composite_from_classes [of mf p env svc metaKey cs] by (auto split: if_splits)
qed

theorem composite_no_duplicate_handlers_witness:
  "methodsAndControllerMethodsWithMetaAtKey sample_env sample_service ''roles'' None
     = Inr [list_method (Str ''/list''), find_method (Str ''guest'')]
   \<and> list_all (scannable sample_env) (discoveredControllers sample_service)
   \<and> inherited_methods sample_env (\<lambda>m. True)
        [with_class_meta sample_env ''roles'' admin_class]
     = [list_method (Str ''/list'')]
   \<and> direct_methods sample_env sample_service ''roles'' (\<lambda>m. True)
     = [list_method (Str ''user''), find_method (Str ''guest'')]
   \<and> handler_of (list_method (Str ''/list'')) = handler_of (list_method (Str ''user''))
   \<and> distinct (map handler_of [list_method (Str ''/list''), find_method (Str ''guest'')])"
proof -
  have scan: "list_all (scannable sample_env) (discoveredControllers sample_service)"
    by (simp add: sample_lists sample_scannable)
  from composite_no_duplicate_handlers [of sample_env sample_service "''roles''" None]
  have "\<exists>r. methodsAndControllerMethodsWithMetaAtKey sample_env sample_service ''roles'' None = Inr r
      \<and> r = uniqBy (inherited_methods sample_env (\<lambda>m. True)
                      [with_class_meta sample_env ''roles'' admin_class]) handler_of
           @ filter (\<lambda>y. handler_of y \<notin> handler_of ` set (inherited_methods sample_env (\<lambda>m. True)
                  [with_class_meta sample_env ''roles'' admin_class]))
               (uniqBy (direct_methods sample_env sample_service ''roles'' (\<lambda>m. True)) handler_of)"
    using sample_class_level(1) default_filter_None [where 'a = jsval] scan by blast
  then show ?thesis
    by (simp add: scan sample_inherited sample_direct uniqBy_def sample_method_fields)
qed

text \<open>
  Claim C3. The two lists built by the constructor are exhaustive, unfiltered snapshots of
  the container: \<^verbatim>\<open>controllers(() => true)\<close> and \<^verbatim>\<open>providers(() => true)\<close> return, for
  the modules in container order and within a module for the entries of its routes or
  components map in map order, one record per entry, which carries that entry's name,
  instance and type and the name, instance and type of that entry's module; their lengths
  are the total numbers of entries.
\<close>

theorem snapshot_exhaustive:
  "controllers (new_DiscoveryService mc) (pure_filter (\<lambda>x. True))
     = Inr (concat (map (\<lambda>(key, m). map (\<lambda>(n, w).
         \<lparr> name = wrapper_name w, instance_obj = wrapper_instance w, classType = metatype w,
           parentModule =
             \<lparr> name = type_name (module_metatype m), instance_obj = module_instance m,
               classType = Some (ident (module_metatype m)) \<rparr> \<rparr>) (routes m)) mc))
   \<and> providers (new_DiscoveryService mc) (pure_filter (\<lambda>x. True))
     = Inr (concat (map (\<lambda>(key, m). map (\<lambda>(n, w).
         \<lparr> name = wrapper_name w, instance_obj = wrapper_instance w, classType = metatype w,
           parentModule =
             \<lparr> name = type_name (module_metatype m), instance_obj = module_instance m,
               classType = Some (ident (module_metatype m)) \<rparr> \<rparr>) (components m)) mc))
   \<and> length (discoveredControllers (new_DiscoveryService mc))
     = sum_list (map (\<lambda>(key, m). length (routes m)) mc)
   \<and> length (discoveredProviders (new_DiscoveryService mc))
     = sum_list (map (\<lambda>(key, m). length (components m)) mc)"
  by (simp add: controllers_pure providers_pure discoveredControllers_new
        discoveredProviders_new length_flattened toDiscoveredClass_def [abs_def])

theorem snapshot_exhaustive_witness:
  "controllers sample_service (pure_filter (\<lambda>x. True))
     = Inr [\<lparr> name = ''AdminController'', instance_obj = Some 30, classType = Some 10,
              parentModule = \<lparr> name = ''AppModule'', instance_obj = Some 2, classType = Some 1 \<rparr> \<rparr>,
            \<lparr> name = ''PlainController'', instance_obj = Some 31, classType = Some 11,
              parentModule = \<lparr> name = ''AppModule'', instance_obj = Some 2, classType = Some 1 \<rparr> \<rparr>]
   \<and> providers null_service (pure_filter (\<lambda>x. True))
     = Inr [\<lparr> name = ''RoleService'', instance_obj = Some 40, classType = Some 20,
              parentModule = \<lparr> name = ''AppModule'', instance_obj = Some 2, classType = Some 1 \<rparr> \<rparr>,
            \<lparr> name = ''EMPTY'', instance_obj = None, classType = None,
              parentModule = \<lparr> name = ''AppModule'', instance_obj = Some 2, classType = Some 1 \<rparr> \<rparr>]
   \<and> length (discoveredControllers sample_service) = 2
   \<and> length (discoveredProviders null_service) = 2"
  unfolding sample_service_def null_service_def
  using snapshot_exhaustive [of "[(''AppModule'', sample_module)]"]
    snapshot_exhaustive [of "[(''AppModule'', null_module)]"]
  by (simp add: sample_module_def null_module_def admin_wrapper_def plain_wrapper_def
        service_wrapper_def null_wrapper_def)

text \<open>
  Claim C4. For every predicate on discovered classes, \<^verbatim>\<open>controllers(f)\<close> is the
  subsequence of \<^verbatim>\<open>controllers(() => true)\<close>, the whole list, made of exactly the elements
  on which the predicate is true, in the list's order; likewise for \<^verbatim>\<open>providers\<close>.
\<close>

theorem filter_subsequence:
  "controllers svc (pure_filter f) = Inr (filter f (discoveredControllers svc))
   \<and> controllers svc (pure_filter (\<lambda>x. True)) = Inr (discoveredControllers svc)
   \<and> subseq (filter f (discoveredControllers svc)) (discoveredControllers svc)
   \<and> providers svc (pure_filter f) = Inr (filter f (discoveredProviders svc))
   \<and> providers svc (pure_filter (\<lambda>x. True)) = Inr (discoveredProviders svc)
   \<and> subseq (filter f (discoveredProviders svc)) (discoveredProviders svc)"
  by (simp add: controllers_pure providers_pure)

theorem filter_subsequence_witness:
  "controllers sample_service (pure_filter (\<lambda>c. name c = ''PlainController'')) = Inr [plain_class]
   \<and> controllers sample_service (pure_filter (\<lambda>x. True)) = Inr [admin_class, plain_class]
   \<and> subseq [plain_class] [admin_class, plain_class]
   \<and> providers sample_service (pure_filter (\<lambda>x. True)) = Inr [service_class]"
  using filter_subsequence [of sample_service "\<lambda>c. name c = ''PlainController''"]
  by (simp add: sample_lists sample_classes)

text \<open>
  Claim C5, as stated: \<^verbatim>\<open>controllersWithMetaAtKey(k)\<close> keeps the classes for which the store
  reports any metadata at the key and pairs each with the value read there. This fails for a
  class whose value at the key is falsy: the store reports metadata for the class of
  \<open>ZeroController\<close> (the number 0), and the query returns no entry for it.
\<close>

theorem classesWithMeta_presence_counterexample:
  "discoveredControllers zero_service = [zero_class]
   \<and> hasMetadata sample_env ''roles'' (classType zero_class)
   \<and> controllersWithMetaAtKey sample_env zero_service ''roles'' = Inr []
   \<and> spec_classesWithMetaAtKey sample_env ''roles'' (discoveredControllers zero_service)
       = [with_class_meta sample_env ''roles'' zero_class]
   \<and> controllersWithMetaAtKey sample_env zero_service ''roles''
       \<noteq> Inr (spec_classesWithMetaAtKey sample_env ''roles'' (discoveredControllers zero_service))"
  by (simp add: sample_class_level sample_lists sample_classes hasMetadata_def
        sample_metadata spec_classesWithMetaAtKey_def)

text \<open>
  Claim C5, amended. When every class in the list has a type reference,
  \<^verbatim>\<open>controllersWithMetaAtKey(k)\<close> (and likewise \<^verbatim>\<open>providersWithMetaAtKey(k)\<close>) keeps the
  classes whose value read at the key from the class's type reference is truthy, in list
  order, and pairs each with that value. A class for which the store holds no metadata at
  the key is in no result of either query.
\<close>

theorem classesWithMeta_truthy:
  "(list_all (\<lambda>c. classType c \<noteq> None) (discoveredControllers svc) \<longrightarrow>
      controllersWithMetaAtKey env svc k
        = Inr (map (with_class_meta env k)
                 (filter (\<lambda>c. truthy (class_meta env k c)) (discoveredControllers svc))))
   \<and> (list_all (\<lambda>c. classType c \<noteq> None) (discoveredProviders svc) \<longrightarrow>
      providersWithMetaAtKey env svc k
        = Inr (map (with_class_meta env k)
                 (filter (\<lambda>c. truthy (class_meta env k c)) (discoveredProviders svc))))
   \<and> (\<forall>c r. \<not> hasMetadata env k (classType c) \<and>
         (controllersWithMetaAtKey env svc k = Inr r \<or> providersWithMetaAtKey env svc k = Inr r)
        \<longrightarrow> c \<notin> discoveredClass ` set r)"
proof (intro conjI allI impI)
  fix c :: DiscoveredClass and r
  assume a: "\<not> hasMetadata env k (classType c) \<and>
     (controllersWithMetaAtKey env svc k = Inr r \<or> providersWithMetaAtKey env svc k = Inr r)"
  then have "\<not> truthy (class_meta env k c)"
    by (auto simp: hasMetadata_def class_meta_def OrdinaryGetMetadata_def split: option.splits)
  moreover from a have "\<exists>cs. r = truthy_classesWithMetaAtKey env k cs"
    by (auto simp: controllersWithMetaAtKey_total providersWithMetaAtKey_total split: if_splits)
  ultimately show "c \<notin> discoveredClass ` set r"
    by (auto simp: truthy_classesWithMetaAtKey_def with_class_meta_def)
qed (simp_all add: controllersWithMetaAtKey_total providersWithMetaAtKey_total
       truthy_classesWithMetaAtKey_def)

theorem classesWithMeta_truthy_witness:
  "list_all (\<lambda>c. classType c \<noteq> None) (discoveredControllers sample_service)
   \<and> controllersWithMetaAtKey sample_env sample_service ''roles''
       = Inr [with_class_meta sample_env ''roles'' admin_class]
   \<and> list_all (\<lambda>c. classType c \<noteq> None) (discoveredProviders sample_service)
   \<and> providersWithMetaAtKey sample_env sample_service ''roles''
       = Inr [with_class_meta sample_env ''roles'' service_class]
   \<and> \<not> hasMetadata sample_env ''roles'' (classType plain_class)
   \<and> plain_class \<notin> discoveredClass ` set [with_class_meta sample_env ''roles'' admin_class]"
  using classesWithMeta_truthy [of sample_service sample_env "''roles''"]
  by (simp add: sample_lists sample_classes class_meta_def OrdinaryGetMetadata_def
        sample_metadata hasMetadata_def with_class_meta_def admin_class_def plain_class_def)

text \<open>
  Claim C6. For every discovered class and key, \<^verbatim>\<open>classMethodsWithMetaAtKey\<close> builds one
  entry per scanned method name, whose handler is the value the prototype of the class's
  instance binds to the name and whose meta is the value read at the key from that handler
  (not from the class), and keeps the entries with a truthy meta, so that no returned entry
  has a falsy meta. It returns this list when the instance is present and every scanned
  name is bound to an object; it throws a \<^verbatim>\<open>TypeError\<close> when the instance is \<^verbatim>\<open>null\<close> or
  \<^verbatim>\<open>undefined\<close>, or a scanned name is bound to a value that is not an object.
\<close>

theorem classMethods_no_falsy:
  "(instance_obj component = None \<longrightarrow>
      classMethodsWithMetaAtKey env component metaKey = Inl TypeError)
   \<and> (\<forall>i. instance_obj component = Some i \<longrightarrow>
        classMethodsWithMetaAtKey env component metaKey
          = (if list_all (\<lambda>n. property env (getPrototypeOf env i) n \<noteq> None)
                 (methodNames env (getPrototypeOf env i))
             then Inr (filter (\<lambda>x. truthy (meta x))
                    (map (\<lambda>n.
                       \<lparr> meta = (case property env (getPrototypeOf env i) n of
                                   None \<Rightarrow> Undefined
                                 | Some h \<Rightarrow> OrdinaryGetMetadata env metaKey h),
                         discoveredMethod =
                           \<lparr> handler = property env (getPrototypeOf env i) n,
                             methodName = n,
                             parentClass = component \<rparr> \<rparr>)
                       (methodNames env (getPrototypeOf env i))))
             else Inl TypeError))
   \<and> (\<forall>ms. classMethodsWithMetaAtKey env component metaKey = Inr ms
          \<longrightarrow> (\<forall>x \<in> set ms. truthy (meta x)))"
proof (intro conjI allI impI ballI)
  assume "instance_obj component = None"
  then show "classMethodsWithMetaAtKey env component metaKey = Inl TypeError"
    by (simp add: classMethodsWithMetaAtKey_total scannable_def)
next
  fix i
  assume i: "instance_obj component = Some i"
  then have entry: "method_entry env metaKey component =
      (\<lambda>n. \<lparr> meta = (case property env (getPrototypeOf env i) n of
                       None \<Rightarrow> Undefined | Some h \<Rightarrow> OrdinaryGetMetadata env metaKey h),
              discoveredMethod = \<lparr> handler = property env (getPrototypeOf env i) n,
                                   methodName = n, parentClass = component \<rparr> \<rparr>)"
    by (simp add: method_entry_def handler_at_def fun_eq_iff)
  from i show "classMethodsWithMetaAtKey env component metaKey
      = (if list_all (\<lambda>n. property env (getPrototypeOf env i) n \<noteq> None)
             (methodNames env (getPrototypeOf env i))
         then Inr (filter (\<lambda>x. truthy (meta x))
                (map (\<lambda>n.
                   \<lparr> meta = (case property env (getPrototypeOf env i) n of
                               None \<Rightarrow> Undefined
                             | Some h \<Rightarrow> OrdinaryGetMetadata env metaKey h),
                     discoveredMethod =
                       \<lparr> handler = property env (getPrototypeOf env i) n,
                         methodName = n,
                         parentClass = component \<rparr> \<rparr>)
                   (methodNames env (getPrototypeOf env i))))
         else Inl TypeError)"
    unfolding entry [symmetric]
    by (simp add: classMethodsWithMetaAtKey_total scannable_def names_of_def handler_at_def
          tagged_methods_def scanned_methods_def)
next
  fix ms x
  assume "classMethodsWithMetaAtKey env component metaKey = Inr ms" and "x \<in> set ms"
  then show "truthy (meta x)"
    by (auto simp: classMethodsWithMetaAtKey_total tagged_methods_def split: if_splits)
qed

theorem classMethods_no_falsy_witness:
  "instance_obj admin_class = Some 30
   \<and> methodNames sample_env (getPrototypeOf sample_env 30) = [''list'', ''helper'']
   \<and> classMethodsWithMetaAtKey sample_env admin_class ''path''
     = Inr [\<lparr> meta = Str ''/list'',
              discoveredMethod =
                \<lparr> handler = Some 200, methodName = ''list'', parentClass = admin_class \<rparr> \<rparr>]
   \<and> instance_obj null_class = None
   \<and> classMethodsWithMetaAtKey sample_env null_class ''path'' = Inl TypeError"
  using classMethods_no_falsy [of admin_class sample_env "''path''"]
    classMethods_no_falsy [of null_class sample_env "''path''"]
  by (simp add: sample_classes sample_env_fields OrdinaryGetMetadata_def sample_metadata)

text \<open>
  Claim C7. For every key and class filter, \<^verbatim>\<open>providerMethodsWithMetaAtKey\<close> and
  \<^verbatim>\<open>controllerMethodsWithMetaAtKey\<close> run \<^verbatim>\<open>classMethodsWithMetaAtKey\<close> on the classes the
  filter selects, in list order (without a filter, on all classes of the list), and return
  the concatenation of the lists it returns, in that order; when it throws on a class, the
  query throws.
\<close>

theorem classMethods_flattened:
  "providerMethodsWithMetaAtKey env svc metaKey (Some (pure_filter f))
     = (case array_map (\<lambda>c. classMethodsWithMetaAtKey env c metaKey)
               (filter f (discoveredProviders svc)) of
          Inl e \<Rightarrow> Inl e | Inr mss \<Rightarrow> Inr (concat mss))
   \<and> providerMethodsWithMetaAtKey env svc metaKey None
     = (case array_map (\<lambda>c. classMethodsWithMetaAtKey env c metaKey) (discoveredProviders svc) of
          Inl e \<Rightarrow> Inl e | Inr mss \<Rightarrow> Inr (concat mss))
   \<and> controllerMethodsWithMetaAtKey env svc metaKey (Some (pure_filter f))
     = (case array_map (\<lambda>c. classMethodsWithMetaAtKey env c metaKey)
               (filter f (discoveredControllers svc)) of
          Inl e \<Rightarrow> Inl e | Inr mss \<Rightarrow> Inr (concat mss))
   \<and> controllerMethodsWithMetaAtKey env svc metaKey None
     = (case array_map (\<lambda>c. classMethodsWithMetaAtKey env c metaKey)
               (discoveredControllers svc) of
          Inl e \<Rightarrow> Inl e | Inr mss \<Rightarrow> Inr (concat mss))
   \<and> (\<forall>cs. array_map (\<lambda>c. classMethodsWithMetaAtKey env c metaKey) cs
         = (if list_all (scannable env) cs
            then Inr (map (\<lambda>c. tagged_methods env c metaKey) cs) else Inl TypeError))"
  by (simp add: providerMethods_pure providerMethods_default controllerMethods_pure
        controllerMethods_default flatMapE_array_map bindE_def
        array_map_classMethods [of env "\<lambda>c. c"])

theorem classMethods_flattened_witness:
  "controllerMethodsWithMetaAtKey sample_env sample_service ''roles'' None
     = Inr [list_method (Str ''user''), find_method (Str ''guest'')]
   \<and> controllerMethodsWithMetaAtKey sample_env sample_service ''roles''
        (Some (pure_filter (\<lambda>c. name c = ''PlainController'')))
     = Inr [find_method (Str ''guest'')]
   \<and> providerMethodsWithMetaAtKey sample_env sample_service ''roles'' None = Inr []
   \<and> discoveredProviders null_service = [service_class, null_class]
   \<and> providerMethodsWithMetaAtKey sample_env null_service ''roles'' None = Inl TypeError"
  using classMethods_flattened [of sample_env sample_service "''roles''"
      "\<lambda>c. name c = ''PlainController''"]
    classMethods_flattened [of sample_env null_service "''roles''" "\<lambda>c. True"]
  by (simp add: sample_lists sample_tagged sample_classes sample_scannable
        array_map_classMethods [of sample_env "\<lambda>c. c"] del: array_map.simps)

text \<open>
  Claim C8, as stated: a metadata query over a record whose class type is absent returns
  absence instead of raising. This fails: the value provider \<open>CONFIG\<close> has no class, the
  filter \<^verbatim>\<open>withMetaAtKey\<close> throws a \<^verbatim>\<open>TypeError\<close> on its record, and so does
  \<^verbatim>\<open>providersWithMetaAtKey\<close> over the providers.
\<close>

theorem untyped_class_counterexample:
  "classType value_class = None
   \<and> discoveredProviders value_service = [service_class, value_class]
   \<and> withMetaAtKey sample_env ''roles'' value_class = Inl TypeError
   \<and> providers value_service (withMetaAtKey sample_env ''roles'') = Inl TypeError
   \<and> providersWithMetaAtKey sample_env value_service ''roles'' = Inl TypeError"
  by (simp add: sample_lists sample_classes withMetaAtKey_def
        Reflect_getMetadata_def providers_def providersWithMetaAtKey_def bindE_def)

text \<open>
  Claim C8, amended. On a record whose class type is absent the filter \<^verbatim>\<open>withMetaAtKey\<close>
  throws a \<^verbatim>\<open>TypeError\<close>, and so do \<^verbatim>\<open>controllersWithMetaAtKey\<close>,
  \<^verbatim>\<open>providersWithMetaAtKey\<close> and \<^verbatim>\<open>methodsAndControllerMethodsWithMetaAtKey\<close> when the record
  is in the list they scan. On a record whose class type is present and has no metadata at
  the key, the filter returns \<^verbatim>\<open>undefined\<close> without raising. The method-level query
  \<^verbatim>\<open>classMethodsWithMetaAtKey\<close> does not read the class type: its outcome on a record, the
  entries it returns or the error it throws, is the same whatever the record's class type;
  it returns when the record can be scanned and throws a \<^verbatim>\<open>TypeError\<close> when the record's
  instance is \<^verbatim>\<open>null\<close> or \<^verbatim>\<open>undefined\<close>.
\<close>

theorem untyped_class_raises:
  "(classType c = None \<longrightarrow>
      withMetaAtKey env k c = Inl TypeError
      \<and> (c \<in> set (discoveredControllers svc) \<longrightarrow>
           controllersWithMetaAtKey env svc k = Inl TypeError
           \<and> methodsAndControllerMethodsWithMetaAtKey env svc k mf = Inl TypeError)
      \<and> (c \<in> set (discoveredProviders svc) \<longrightarrow>
           providersWithMetaAtKey env svc k = Inl TypeError))
   \<and> (\<forall>t. classType c = Some t \<and> metadata env k t = None \<longrightarrow>
         withMetaAtKey env k c = Inr Undefined)
   \<and> (\<forall>ct. map_sum id (map (\<lambda>m. (meta m, handler_of m, methodName (discoveredMethod m))))
              (classMethodsWithMetaAtKey env (c \<lparr> classType := ct \<rparr>) k)
         = map_sum id (map (\<lambda>m. (meta m, handler_of m, methodName (discoveredMethod m))))
              (classMethodsWithMetaAtKey env c k))
   \<and> (scannable env c \<longrightarrow> classMethodsWithMetaAtKey env c k = Inr (tagged_methods env c k))
   \<and> (instance_obj c = None \<longrightarrow> classMethodsWithMetaAtKey env c k = Inl TypeError)"
proof -
  have same: "map (\<lambda>m. (meta m, handler_of m, methodName (discoveredMethod m)))
                (tagged_methods env (c \<lparr> classType := ct \<rparr>) k)
              = map (\<lambda>m. (meta m, handler_of m, methodName (discoveredMethod m)))
                  (tagged_methods env c k)" for ct
    by (simp add: tagged_methods_def scanned_methods_def names_of_def method_entry_def
          handler_at_def handler_of_def filter_map o_def)
  have scan: "scannable env (c \<lparr> classType := ct \<rparr>) = scannable env c" for ct
    by (simp add: scannable_def names_of_def handler_at_def)
  have class_level: "classType c = None \<longrightarrow>
      withMetaAtKey env k c = Inl TypeError
      \<and> (c \<in> set (discoveredControllers svc) \<longrightarrow>
           controllersWithMetaAtKey env svc k = Inl TypeError
           \<and> methodsAndControllerMethodsWithMetaAtKey env svc k mf = Inl TypeError)
      \<and> (c \<in> set (discoveredProviders svc) \<longrightarrow>
           providersWithMetaAtKey env svc k = Inl TypeError)"
    using controllersWithMetaAtKey_untyped [of c svc env k]
      providersWithMetaAtKey_untyped [of c svc env k]
      composite_untyped [of c svc env k mf] withMetaAtKey_untyped [of c env k]
    by auto
  have absent: "\<forall>t. classType c = Some t \<and> metadata env k t = None \<longrightarrow>
      withMetaAtKey env k c = Inr Undefined"
    by (simp add: withMetaAtKey_def Reflect_getMetadata_def OrdinaryGetMetadata_def)
  have unread: "\<forall>ct. map_sum id (map (\<lambda>m. (meta m, handler_of m, methodName (discoveredMethod m))))
              (classMethodsWithMetaAtKey env (c \<lparr> classType := ct \<rparr>) k)
         = map_sum id (map (\<lambda>m. (meta m, handler_of m, methodName (discoveredMethod m))))
              (classMethodsWithMetaAtKey env c k)"
    by (simp add: classMethodsWithMetaAtKey_total same scan)
  have returns: "scannable env c \<longrightarrow> classMethodsWithMetaAtKey env c k = Inr (tagged_methods env c k)"
    by (simp add: classMethodsWithMetaAtKey_total)
  have throws: "instance_obj c = None \<longrightarrow> classMethodsWithMetaAtKey env c k = Inl TypeError"
    by (simp add: classMethodsWithMetaAtKey_total scannable_def)
  from class_level absent unread returns throws show ?thesis
    by (intro conjI)
qed

theorem untyped_class_raises_witness:
  "classType value_class = None
   \<and> withMetaAtKey sample_env ''roles'' value_class = Inl TypeError
   \<and> value_class \<in> set (discoveredProviders value_service)
   \<and> providersWithMetaAtKey sample_env value_service ''roles'' = Inl TypeError
   \<and> scannable sample_env value_class
   \<and> classMethodsWithMetaAtKey sample_env value_class ''roles'' = Inr []
   \<and> instance_obj null_class = None
   \<and> classMethodsWithMetaAtKey sample_env null_class ''roles'' = Inl TypeError
   \<and> classType plain_class = Some 11
   \<and> metadata sample_env ''roles'' 11 = None
   \<and> withMetaAtKey sample_env ''roles'' plain_class = Inr Undefined"
  using untyped_class_raises [of value_class sample_env "''roles''" value_service None]
    untyped_class_raises [of plain_class sample_env "''roles''" sample_service None]
    untyped_class_raises [of null_class sample_env "''roles''" sample_service None]
  by (simp add: sample_lists sample_classes sample_tagged sample_metadata sample_scannable)

text \<open>
  Claim C9. Every query is deterministic over the snapshot and mutates nothing: on any heap
  that holds the service's two arrays, as the heap the constructor leaves does, a call of any
  of the eight queries leaves every array of that heap, and so both lists of the service, as
  it was; and the same call made again, on the heap the first call leaves, has the same
  outcome: the same exception, or an array with the same contents.
\<close>

theorem queries_deterministic:
  "(\<forall>mc h0. h_new_DiscoveryService mc h0 = (obj, h) \<longrightarrow>
      controllers_ref obj < fresh h \<and> providers_ref obj < fresh h
      \<and> snapshot h obj = new_DiscoveryService mc)
   \<and> (controllers_ref obj < fresh h \<and> providers_ref obj < fresh h \<longrightarrow>
     (\<forall>a<fresh h. cells (snd (h_call env q obj h)) a = cells h a)
     \<and> cells (snd (h_call env q obj h)) (controllers_ref obj) = cells h (controllers_ref obj)
     \<and> cells (snd (h_call env q obj h)) (providers_ref obj) = cells h (providers_ref obj)
     \<and> cells (snd (h_call env q obj (snd (h_call env q obj h)))) (controllers_ref obj)
         = cells h (controllers_ref obj)
     \<and> cells (snd (h_call env q obj (snd (h_call env q obj h)))) (providers_ref obj)
         = cells h (providers_ref obj)
     \<and> result_at (snd (h_call env q obj (snd (h_call env q obj h))))
          (fst (h_call env q obj (snd (h_call env q obj h))))
         = result_at (snd (h_call env q obj h)) (fst (h_call env q obj h)))"
proof (rule conjI)
  show "\<forall>mc h0. h_new_DiscoveryService mc h0 = (obj, h) \<longrightarrow>
      controllers_ref obj < fresh h \<and> providers_ref obj < fresh h
      \<and> snapshot h obj = new_DiscoveryService mc"
    using h_new_DiscoveryService_allocates [of _ _ obj h] by blast
next
  show "controllers_ref obj < fresh h \<and> providers_ref obj < fresh h \<longrightarrow>
     (\<forall>a<fresh h. cells (snd (h_call env q obj h)) a = cells h a)
     \<and> cells (snd (h_call env q obj h)) (controllers_ref obj) = cells h (controllers_ref obj)
     \<and> cells (snd (h_call env q obj h)) (providers_ref obj) = cells h (providers_ref obj)
     \<and> cells (snd (h_call env q obj (snd (h_call env q obj h)))) (controllers_ref obj)
         = cells h (controllers_ref obj)
     \<and> cells (snd (h_call env q obj (snd (h_call env q obj h)))) (providers_ref obj)
         = cells h (providers_ref obj)
     \<and> result_at (snd (h_call env q obj (snd (h_call env q obj h))))
          (fst (h_call env q obj (snd (h_call env q obj h))))
         = result_at (snd (h_call env q obj h)) (fst (h_call env q obj h))"
  proof (rule impI)
  assume a: "controllers_ref obj < fresh h \<and> providers_ref obj < fresh h"
  let ?h1 = "snd (h_call env q obj h)"
  let ?h2 = "snd (h_call env q obj ?h1)"
  from a have first: "result_at ?h1 (fst (h_call env q obj h))
        = map_sum id Some (value_of env q (snapshot h obj))"
      "fresh h \<le> fresh ?h1" "\<forall>a<fresh h. cells ?h1 a = cells h a"
    using h_call_outcome [of obj h env q] by simp_all
  with a have a1: "controllers_ref obj < fresh ?h1" "providers_ref obj < fresh ?h1"
    and same: "snapshot ?h1 obj = snapshot h obj"
    using snapshot_kept [of obj h ?h1] by auto
  from a1 have second: "result_at ?h2 (fst (h_call env q obj ?h1))
        = map_sum id Some (value_of env q (snapshot ?h1 obj))"
      "\<forall>a<fresh ?h1. cells ?h2 a = cells ?h1 a"
    using h_call_outcome [of obj ?h1 env q] by simp_all
  from a a1 first second same
  show "(\<forall>a<fresh h. cells ?h1 a = cells h a)
     \<and> cells ?h1 (controllers_ref obj) = cells h (controllers_ref obj)
     \<and> cells ?h1 (providers_ref obj) = cells h (providers_ref obj)
     \<and> cells ?h2 (controllers_ref obj) = cells h (controllers_ref obj)
     \<and> cells ?h2 (providers_ref obj) = cells h (providers_ref obj)
     \<and> result_at ?h2 (fst (h_call env q obj ?h1)) = result_at ?h1 (fst (h_call env q obj h))"
    by simp
  qed
qed

theorem queries_deterministic_witness:
  "h_new_DiscoveryService [(''AppModule'', sample_module)] empty_heap = (sample_object, sample_heap)
   \<and> snapshot sample_heap sample_object = new_DiscoveryService [(''AppModule'', sample_module)]
   \<and> controllers_ref sample_object < fresh sample_heap
   \<and> providers_ref sample_object < fresh sample_heap
   \<and> cells sample_heap (controllers_ref sample_object) = Some (Classes [admin_class, plain_class])
   \<and> cells (snd (h_call sample_env (ControllersWithMetaAtKey ''roles'') sample_object sample_heap))
        (controllers_ref sample_object) = Some (Classes [admin_class, plain_class])
   \<and> result_at (snd (h_call sample_env (ControllersWithMetaAtKey ''roles'') sample_object sample_heap))
        (fst (h_call sample_env (ControllersWithMetaAtKey ''roles'') sample_object sample_heap))
       = Inr (Some (ClassesWithMeta [with_class_meta sample_env ''roles'' admin_class]))
   \<and> result_at
        (snd (h_call sample_env (ControllersWithMetaAtKey ''roles'') sample_object
           (snd (h_call sample_env (ControllersWithMetaAtKey ''roles'') sample_object sample_heap))))
        (fst (h_call sample_env (ControllersWithMetaAtKey ''roles'') sample_object
           (snd (h_call sample_env (ControllersWithMetaAtKey ''roles'') sample_object sample_heap))))
       = Inr (Some (ClassesWithMeta [with_class_meta sample_env ''roles'' admin_class]))"
proof -
  have cell: "cells sample_heap 0 = Some (Classes [admin_class, plain_class])"
    using sample_lists(1)
    by (simp add: sample_heap_def h_new_DiscoveryService_def alloc_def empty_heap_def
          sample_service_def)
  have out: "result_at (snd (h_call sample_env (ControllersWithMetaAtKey ''roles'') sample_object sample_heap))
        (fst (h_call sample_env (ControllersWithMetaAtKey ''roles'') sample_object sample_heap))
       = Inr (Some (ClassesWithMeta [with_class_meta sample_env ''roles'' admin_class]))"
    using h_call_outcome [of sample_object sample_heap sample_env "ControllersWithMetaAtKey ''roles''"]
    by (simp add: sample_heap_facts sample_class_level del: h_call.simps)
  have made: "h_new_DiscoveryService [(''AppModule'', sample_module)] empty_heap
       = (sample_object, sample_heap)"
    by (simp add: sample_object_def sample_heap_def)
  show ?thesis
    using queries_deterministic [of sample_object sample_heap sample_env
        "ControllersWithMetaAtKey ''roles''"]
    by (simp add: sample_heap_facts cell out made sample_service_def del: h_call.simps)
qed

text \<open>
  Claim C10. The class-level filter treats a falsy value as absence: for a class whose type
  reference has a falsy value stored at the key, the filter \<^verbatim>\<open>withMetaAtKey\<close> returns that
  value, and the class is in no result of \<^verbatim>\<open>controllersWithMetaAtKey\<close> or
  \<^verbatim>\<open>providersWithMetaAtKey\<close> at that key.
\<close>

theorem falsy_class_meta_excluded:
  "classType c = Some t \<and> metadata env k t = Some v \<and> \<not> truthy v \<longrightarrow>
     withMetaAtKey env k c = Inr v
     \<and> (\<forall>r. controllersWithMetaAtKey env svc k = Inr r \<longrightarrow> c \<notin> discoveredClass ` set r)
     \<and> (\<forall>r. providersWithMetaAtKey env svc k = Inr r \<longrightarrow> c \<notin> discoveredClass ` set r)"
proof (intro impI)
  assume a: "classType c = Some t \<and> metadata env k t = Some v \<and> \<not> truthy v"
  then have cm: "class_meta env k c = v"
    by (simp add: class_meta_def OrdinaryGetMetadata_def)
  from a have w: "withMetaAtKey env k c = Inr v"
    by (simp add: withMetaAtKey_def Reflect_getMetadata_def OrdinaryGetMetadata_def)
  from a cm have out: "c \<notin> discoveredClass ` set (truthy_classesWithMetaAtKey env k cs)" for cs
    by (auto simp: truthy_classesWithMetaAtKey_def with_class_meta_def)
  show "withMetaAtKey env k c = Inr v
     \<and> (\<forall>r. controllersWithMetaAtKey env svc k = Inr r \<longrightarrow> c \<notin> discoveredClass ` set r)
     \<and> (\<forall>r. providersWithMetaAtKey env svc k = Inr r \<longrightarrow> c \<notin> discoveredClass ` set r)"
    using w out
    by (auto simp: controllersWithMetaAtKey_total providersWithMetaAtKey_total split: if_splits)
qed

theorem falsy_class_meta_excluded_witness:
  "classType zero_class = Some 12
   \<and> metadata sample_env ''roles'' 12 = Some (Num 0)
   \<and> \<not> truthy (Num 0)
   \<and> withMetaAtKey sample_env ''roles'' zero_class = Inr (Num 0)
   \<and> zero_class \<in> set (discoveredControllers zero_service)
   \<and> controllersWithMetaAtKey sample_env zero_service ''roles'' = Inr []
   \<and> zero_class \<notin> discoveredClass ` set []"
  using falsy_class_meta_excluded [of zero_class 12 sample_env "''roles''" "Num 0" zero_service]
  by (simp add: sample_classes sample_metadata sample_lists sample_class_level)

end
